theory Spec2Isabelle
  imports Main
begin

section \<open>JavaScript strings\<close>

text \<open>
  A JavaScript string is a sequence of UTF-16 code units, and \<open>.length\<close> counts them.
  A string is therefore a list of code units, each a natural number; \<open>lit\<close> embeds an
  ASCII literal. The em dash of the log messages is the code unit 8212.
\<close>

type_synonym jstring = "nat list"

definition lit :: "string \<Rightarrow> jstring" where
  "lit s = map of_char s"

definition mdash :: jstring where
  "mdash = [8212]"

text \<open>The character classes of a regular expression without the \<open>u\<close> flag:
  \<open>\d\<close>, \<open>\s\<close> (white space and line terminators) and \<open>\w\<close>.\<close>

definition is_digit :: "nat \<Rightarrow> bool" where
  "is_digit c = (48 \<le> c \<and> c \<le> 57)"

definition is_space :: "nat \<Rightarrow> bool" where
  "is_space c =
     (c = 9 \<or> c = 10 \<or> c = 11 \<or> c = 12 \<or> c = 13 \<or> c = 32 \<or> c = 160 \<or> c = 5760
      \<or> (8192 \<le> c \<and> c \<le> 8202) \<or> c = 8232 \<or> c = 8233 \<or> c = 8239 \<or> c = 8287
      \<or> c = 12288 \<or> c = 65279)"

definition is_word :: "nat \<Rightarrow> bool" where
  "is_word c = ((48 \<le> c \<and> c \<le> 57) \<or> (65 \<le> c \<and> c \<le> 90) \<or> c = 95 \<or> (97 \<le> c \<and> c \<le> 122))"

text \<open>\<open>s.replace(/\D/g, "")\<close>: every code unit that is not an ASCII digit is removed.\<close>

definition strip_non_digits :: "jstring \<Rightarrow> jstring" where
  "strip_non_digits s = filter is_digit s"

text \<open>\<open>s.trim()\<close> removes white space and line terminators at both ends.\<close>

definition trim :: "jstring \<Rightarrow> jstring" where
  "trim s = rev (dropWhile is_space (rev (dropWhile is_space s)))"

text \<open>\<open>s.includes(sub)\<close>.\<close>

definition starts_with :: "jstring \<Rightarrow> jstring \<Rightarrow> bool" where
  "starts_with s sub = (take (length sub) s = sub)"

fun str_includes :: "jstring \<Rightarrow> jstring \<Rightarrow> bool" where
  "str_includes [] sub = (sub = [])"
| "str_includes (c # cs) sub = (starts_with (c # cs) sub \<or> str_includes cs sub)"

text \<open>\<open>s.split("/")\<close> for a one-unit separator: the result is never empty.\<close>

fun split_on :: "nat \<Rightarrow> jstring \<Rightarrow> jstring list" where
  "split_on sep [] = [[]]"
| "split_on sep (c # cs) =
     (if c = sep then [] # split_on sep cs
      else (case split_on sep cs of
              [] \<Rightarrow> [[c]]
            | p # ps \<Rightarrow> (c # p) # ps))"

text \<open>\<open>s.slice(-4)\<close>: the last four code units, or all of \<open>s\<close> when it is shorter.\<close>

definition slice_last4 :: "jstring \<Rightarrow> jstring" where
  "slice_last4 s = drop (length s - 4) s"

text \<open>
  Numbers in template strings (\<open>${elapsed}\<close>, \<open>${rows.length}\<close>, \<open>String(user.id)\<close>) are
  integers here: row counts, millisecond differences and \<open>INT\<close> identifiers, all far
  below the magnitude where JavaScript switches to exponent notation.
\<close>

fun show_nat :: "nat \<Rightarrow> jstring" where
  "show_nat n = (if n < 10 then [48 + n] else show_nat (n div 10) @ [48 + n mod 10])"

definition show_int :: "int \<Rightarrow> jstring" where
  "show_int i = (if i < 0 then 45 # show_nat (nat (- i)) else show_nat (nat i))"

section \<open>Values, thrown errors, responses\<close>

text \<open>
  A number is a double: a finite one is \<open>m * 2^e\<close> for integers \<open>m\<close> and \<open>e\<close> (zero when
  \<open>m = 0\<close>, either sign of zero), and there are the two infinities and \<open>NaN\<close>.
\<close>

datatype number = Finite int int | PlusInfinity | MinusInfinity | NaN

text \<open>\<open>!n\<close> for a number: zero and \<open>NaN\<close> are falsy.\<close>

definition falsy_number :: "number \<Rightarrow> bool" where
  "falsy_number n = (case n of Finite m e \<Rightarrow> m = 0 | NaN \<Rightarrow> True | _ \<Rightarrow> False)"

text \<open>
  The values of log metadata and of result rows. The numbers written there are
  integers (elapsed milliseconds).
\<close>

datatype jsval = JUndefined | JNull | JBool bool | JNum int | JStr jstring

text \<open>Truthiness of such a value, as in \<open>if (info.exception)\<close>.\<close>

definition truthy :: "jsval \<Rightarrow> bool" where
  "truthy v =
     (case v of JUndefined \<Rightarrow> False | JNull \<Rightarrow> False | JBool b \<Rightarrow> b
      | JNum n \<Rightarrow> n \<noteq> 0 | JStr t \<Rightarrow> t \<noteq> [])"

text \<open>
  What \<open>req.json()\<close> returns: any JSON value. The type annotation of \<open>body\<close> in a handler
  is erased at run time, so a field can hold a value of any JSON type. An object is the
  list of its members in the order of the text.
\<close>

datatype json =
    JsonNull
  | JsonBool bool
  | JsonNumber number
  | JsonString jstring
  | JsonArray "json list"
  | JsonObject "(jstring \<times> json) list"

text \<open>
  \<open>body.k\<close> for a body that is not \<open>null\<close> and a name \<open>k\<close> that no prototype defines
  (\<open>phoneNumber\<close>, \<open>lookupDate\<close>): the member of an object, the last one when the name is
  repeated, and \<open>undefined\<close> (\<open>None\<close>) otherwise.
\<close>

definition property :: "json \<Rightarrow> jstring \<Rightarrow> json option" where
  "property v k = (case v of JsonObject kvs \<Rightarrow> map_of (rev kvs) k | _ \<Rightarrow> None)"

text \<open>\<open>!x\<close> for what a property read gives.\<close>

definition falsy :: "json option \<Rightarrow> bool" where
  "falsy x =
     (case x of
        None \<Rightarrow> True
      | Some JsonNull \<Rightarrow> True
      | Some (JsonBool b) \<Rightarrow> \<not> b
      | Some (JsonNumber n) \<Rightarrow> falsy_number n
      | Some (JsonString t) \<Rightarrow> t = []
      | Some (JsonArray _) \<Rightarrow> False
      | Some (JsonObject _) \<Rightarrow> False)"

text \<open>
  A value caught by a \<open>catch\<close> clause. The handlers read \<open>err instanceof Error\<close>,
  \<open>err.message\<close>, \<open>String(err)\<close>, \<open>err.stack\<close> and, in the registration route,
  \<open>err.number\<close> (the SQL Server error number set by the driver).
\<close>

record js_error =
  instance_of_Error :: bool
  message :: jstring
  to_String :: jstring
  stack :: "jstring option"
  number :: "int option"

text \<open>\<open>err instanceof Error ? err.message : String(err)\<close>\<close>

definition err_text :: "js_error \<Rightarrow> jsval" where
  "err_text e = JStr (if instance_of_Error e then message e else to_String e)"

text \<open>\<open>err instanceof Error ? err.stack : undefined\<close>\<close>

definition err_stack :: "js_error \<Rightarrow> jsval" where
  "err_stack e =
     (if instance_of_Error e then (case stack e of None \<Rightarrow> JUndefined | Some s \<Rightarrow> JStr s)
      else JUndefined)"

text \<open>A result row of a stored procedure: keys and values the routes never look into.\<close>

type_synonym row = "(jstring \<times> jsval) list"

text \<open>
  \<open>ApiResponse<T>\<close> of \<open>types/index.ts\<close> with the HTTP status that
  \<open>NextResponse.json\<close> is given (200 when none is given).
\<close>

datatype payload = Rows "row list" | Message jstring

record response =
  status :: nat
  success :: bool
  data :: "payload option"
  error :: "jstring option"

definition failure :: "nat \<Rightarrow> jstring \<Rightarrow> response" where
  "failure code m = \<lparr>status = code, success = False, data = None, error = Some m\<rparr>"

section \<open>The logger (\<open>lib/logger.ts\<close>)\<close>

text \<open>
  A winston \<open>info\<close> object: \<open>level\<close>, \<open>message\<close> and the metadata keys of the call
  (\<open>meta\<close> holds the enumerable keys other than these two).
\<close>

record info =
  level :: jstring
  msg :: jsval
  meta :: "(jstring \<times> jsval) list"

text \<open>
  \<open>text.replace(re, "***-***-$1")\<close> with a global regular expression. A matcher is
  given the code unit before the position (for \<open>\b\<close>) and the rest of the input; it
  returns the captured group and the length of the match. The scan goes from left to
  right over the original input; after a match it resumes behind the match, which is
  what the counter \<open>skip\<close> does.
\<close>

type_synonym matcher = "nat option \<Rightarrow> jstring \<Rightarrow> (jstring \<times> nat) option"

fun replace_all :: "matcher \<Rightarrow> nat \<Rightarrow> nat option \<Rightarrow> jstring \<Rightarrow> jstring" where
  "replace_all m skip prev [] = []"
| "replace_all m skip prev (c # cs) =
     (if 0 < skip then replace_all m (skip - 1) (Some c) cs
      else (case m prev (c # cs) of
              Some (g, n) \<Rightarrow> lit ''***-***-'' @ g @ replace_all m (n - 1) (Some c) cs
            | None \<Rightarrow> c # replace_all m 0 (Some c) cs))"

text \<open>\<open>/\(\d{3}\)\s*\d{3}-(\d{4})/\<close>\<close>

definition match_paren :: matcher where
  "match_paren prev s =
     (case s of
        p # a1 # a2 # a3 # q # rest \<Rightarrow>
          if p = 40 \<and> is_digit a1 \<and> is_digit a2 \<and> is_digit a3 \<and> q = 41 then
            (case dropWhile is_space rest of
               b1 # b2 # b3 # h # c1 # c2 # c3 # c4 # _ \<Rightarrow>
                 if is_digit b1 \<and> is_digit b2 \<and> is_digit b3 \<and> h = 45
                    \<and> is_digit c1 \<and> is_digit c2 \<and> is_digit c3 \<and> is_digit c4
                 then Some ([c1, c2, c3, c4], 13 + length (takeWhile is_space rest))
                 else None
             | _ \<Rightarrow> None)
          else None
      | _ \<Rightarrow> None)"

text \<open>\<open>/\d{3}[-.\s]\d{3}[-.\s](\d{4})/\<close>\<close>

definition is_sep :: "nat \<Rightarrow> bool" where
  "is_sep c = (c = 45 \<or> c = 46 \<or> is_space c)"

definition match_sep :: matcher where
  "match_sep prev s =
     (case s of
        a1 # a2 # a3 # s1 # b1 # b2 # b3 # s2 # c1 # c2 # c3 # c4 # _ \<Rightarrow>
          if is_digit a1 \<and> is_digit a2 \<and> is_digit a3 \<and> is_sep s1
             \<and> is_digit b1 \<and> is_digit b2 \<and> is_digit b3 \<and> is_sep s2
             \<and> is_digit c1 \<and> is_digit c2 \<and> is_digit c3 \<and> is_digit c4
          then Some ([c1, c2, c3, c4], 12)
          else None
      | _ \<Rightarrow> None)"

text \<open>
  \<open>/\b\d{6}(\d{4})\b/\<close>: a word boundary lies between a word unit and a non-word unit,
  the ends of the input counting as non-word. The match starts and ends with a digit,
  so the unit before it and the unit after it must not be word units.
\<close>

definition word_before :: "nat option \<Rightarrow> bool" where
  "word_before prev = (case prev of None \<Rightarrow> False | Some c \<Rightarrow> is_word c)"

definition word_next :: "jstring \<Rightarrow> bool" where
  "word_next s = (case s of [] \<Rightarrow> False | c # _ \<Rightarrow> is_word c)"

definition match_raw :: matcher where
  "match_raw prev s =
     (case s of
        a1 # a2 # a3 # a4 # a5 # a6 # c1 # c2 # c3 # c4 # rest \<Rightarrow>
          if \<not> word_before prev
             \<and> is_digit a1 \<and> is_digit a2 \<and> is_digit a3 \<and> is_digit a4 \<and> is_digit a5
             \<and> is_digit a6 \<and> is_digit c1 \<and> is_digit c2 \<and> is_digit c3 \<and> is_digit c4
             \<and> \<not> word_next rest
          then Some ([c1, c2, c3, c4], 10)
          else None
      | _ \<Rightarrow> None)"

text \<open>The function \<open>mask\<close> inside \<open>maskPhoneNumbers\<close> (named \<open>mask_text\<close> here, \<open>mask\<close>
  being a bit operation of HOL): the three replacements in order.\<close>

definition mask_text :: "jstring \<Rightarrow> jstring" where
  "mask_text text =
     replace_all match_raw 0 None
       (replace_all match_sep 0 None
         (replace_all match_paren 0 None text))"

definition mask_val :: "jsval \<Rightarrow> jsval" where
  "mask_val v = (case v of JStr s \<Rightarrow> JStr (mask_text s) | _ \<Rightarrow> v)"

text \<open>
  \<open>maskPhoneNumbers\<close>: the message when it is a string, and every other key whose
  value is a string.
\<close>

definition maskPhoneNumbers :: "info \<Rightarrow> info" where
  "maskPhoneNumbers i =
     \<lparr>level = mask_text (level i), msg = mask_val (msg i),
      meta = map (\<lambda>(k, v). (k, mask_val v)) (meta i)\<rparr>"

text \<open>
  The transports of the logger. \<open>winston.format.combine\<close> applies the listed formats
  from left to right. \<open>timestamp\<close>, \<open>colorize\<close>, \<open>json\<close> and \<open>printf\<close> are winston's
  own: they add the time, colour the level and serialise the record, and do not rewrite
  the text of the message or of the metadata, so only \<open>maskPhoneNumbers\<close> changes the
  record here. A transport created without \<open>format\<close> has the empty list.
\<close>

datatype format = MaskPhoneNumbers | Timestamp | Json | Colorize | Printf

datatype sink = Console | DailyRotateFile jstring

record transport =
  sink :: sink
  formats :: "format list"

definition fileTransport :: transport where
  "fileTransport =
     \<lparr>sink = DailyRotateFile (lit ''app-%DATE%.log''),
      formats = [MaskPhoneNumbers, Timestamp, Json]\<rparr>"

definition consoleTransport :: transport where
  "consoleTransport =
     \<lparr>sink = Console, formats = [MaskPhoneNumbers, Colorize, Timestamp, Printf]\<rparr>"

record logger_options =
  transports :: "transport list"
  exceptionHandlers :: "transport list"
  rejectionHandlers :: "transport list"

definition logger :: logger_options where
  "logger =
     \<lparr>transports = [consoleTransport, fileTransport],
      exceptionHandlers =
        [\<lparr>sink = Console, formats = []\<rparr>,
         \<lparr>sink = DailyRotateFile (lit ''exceptions-%DATE%.log''), formats = []\<rparr>],
      rejectionHandlers =
        [\<lparr>sink = Console, formats = []\<rparr>,
         \<lparr>sink = DailyRotateFile (lit ''rejections-%DATE%.log''), formats = []\<rparr>]\<rparr>"

definition apply_format :: "format \<Rightarrow> info \<Rightarrow> info" where
  "apply_format f i = (case f of MaskPhoneNumbers \<Rightarrow> maskPhoneNumbers i | _ \<Rightarrow> i)"

definition transport_output :: "transport \<Rightarrow> info \<Rightarrow> sink \<times> info" where
  "transport_output t i = (sink t, fold apply_format (formats t) i)"

text \<open>
  What is written where, for a record at or above \<open>LOG_LEVEL\<close>. Every record goes to
  every transport of the logger, but:
  \<^item> a transport of \<open>transports\<close> drops a record with \<open>info.exception === true\<close>
    (it was not created with \<open>handleExceptions\<close>);
  \<^item> a transport of \<open>exceptionHandlers\<close> writes only the records with a truthy
    \<open>info.exception\<close>, those of uncaught exceptions;
  \<^item> a transport of \<open>rejectionHandlers\<close> writes only the records with a truthy
    \<open>info.rejection\<close>, those of unhandled rejections.
  The file names are relative to the \<open>logs\<close> directory.
\<close>

definition flag :: "info \<Rightarrow> string \<Rightarrow> jsval" where
  "flag i k = (case map_of (meta i) (lit k) of None \<Rightarrow> JUndefined | Some v \<Rightarrow> v)"

definition logged :: "logger_options \<Rightarrow> info \<Rightarrow> (sink \<times> info) list" where
  "logged lg i =
     (if flag i ''exception'' = JBool True then []
      else map (\<lambda>t. transport_output t i) (transports lg))"

definition logged_exception :: "logger_options \<Rightarrow> info \<Rightarrow> (sink \<times> info) list" where
  "logged_exception lg i =
     (if truthy (flag i ''exception'') then map (\<lambda>t. transport_output t i) (exceptionHandlers lg)
      else [])"

definition logged_rejection :: "logger_options \<Rightarrow> info \<Rightarrow> (sink \<times> info) list" where
  "logged_rejection lg i =
     (if truthy (flag i ''rejection'') then map (\<lambda>t. transport_output t i) (rejectionHandlers lg)
      else [])"

section \<open>Effects of a request\<close>

text \<open>
  What a handler does besides returning: it reads the clock, logs, writes to the console,
  opens the connection pool, sends a statement to SQL Server and calls bcrypt. Each of
  these is an event of the trace, in the order of the calls.
\<close>

record db_config =
  cfg_server :: jstring
  cfg_port :: number
  cfg_database :: jstring
  cfg_user :: jstring
  cfg_password :: jstring
  encrypt :: bool
  trustServerCertificate :: bool
  enableArithAbort :: bool
  pool_max :: nat
  pool_min :: nat
  idleTimeoutMillis :: nat
  connectionTimeout :: nat
  requestTimeout :: nat

text \<open>
  The statements the application sends, with their parameters:
  the \<open>SELECT\<close> of \<open>authorize\<close> (\<open>WHERE username = @username\<close>), the \<open>SELECT\<close> of the
  forgot-password route (\<open>WHERE email = @email AND is_active = 1\<close>), the \<open>INSERT\<close> of
  the registration route, and the two stored procedures \<open>dbo.sp_dnc_history\<close>
  (\<open>@PhoneNumber\<close>) and \<open>dbo.sp_dnc_lookup\<close> (\<open>@PhoneNumber\<close>, \<open>@LookupDate\<close>).
\<close>

datatype sql_call =
    SelectUserByUsername jstring
  | SelectActiveUserByEmail jstring
  | InsertUser jstring jstring jstring
  | Exec_sp_dnc_history jstring
  | Exec_sp_dnc_lookup jstring int

datatype event =
    Log info
  | ConsoleLog jstring
  | Connect db_config
  | Sql sql_call
  | BcryptHash jstring nat
  | BcryptCompare jstring jstring

fun is_db_event :: "event \<Rightarrow> bool" where
  "is_db_event (Connect _) = True"
| "is_db_event (Sql _) = True"
| "is_db_event _ = False"

fun is_decision_service_call :: "event \<Rightarrow> bool" where
  "is_decision_service_call (Sql (Exec_sp_dnc_history _)) = True"
| "is_decision_service_call (Sql (Exec_sp_dnc_lookup _ _)) = True"
| "is_decision_service_call _ = False"

fun is_hash_event :: "event \<Rightarrow> bool" where
  "is_hash_event (BcryptHash _ _) = True"
| "is_hash_event _ = False"

text \<open>
  The module state of \<open>lib/db.ts\<close> (\<open>_prodPool\<close> and \<open>global._mssqlPool\<close>), the number
  of clock readings so far, and the trace.
\<close>

record pool =
  connected :: bool

record world =
  prodPool :: "pool option"
  mssqlPool :: "pool option"
  clock :: nat
  trace :: "event list"

text \<open>Rows of \<open>[dbo].[users]\<close> as the two \<open>SELECT\<close>s return them.\<close>

record account =
  user_id :: int
  username :: jstring
  email :: jstring

record user = account +
  password_hash :: jstring
  is_active :: bool

text \<open>What \<open>authorize\<close> returns on success; NextAuth puts it into the session.\<close>

record identity =
  ident_id :: jstring
  ident_name :: jstring
  ident_email :: jstring

text \<open>The client-side result of \<open>signIn(..., {redirect: false})\<close>.\<close>

record signin_result =
  signin_error :: "jstring option"
  signin_status :: nat
  signin_ok :: bool
  signin_url :: "jstring option"

text \<open>
  Everything outside the repository that a handler calls: the environment variables,
  the SQL Server driver and the database behind it, bcrypt, the \<open>Date\<close> constructor
  (\<open>new Date(s).getTime()\<close>, \<open>None\<close> for \<open>NaN\<close>), \<open>toLowerCase\<close>, \<open>parseInt(s, 10)\<close>,
  the wording of the \<open>TypeError\<close> the engine throws at a given expression, the stack
  string it attaches to an error with a given message, the clock
  (\<open>Date.now()\<close> at the n-th reading), and the answer NextAuth sends to \<open>signIn\<close> for
  what \<open>authorize\<close> returned. A call that throws is \<open>Inl\<close>.
\<close>

record env =
  process_env :: "jstring \<Rightarrow> jstring option"
  sql_connect :: "db_config \<Rightarrow> js_error + pool"
  select_user :: "jstring \<Rightarrow> js_error + user list"
  select_active_account :: "jstring \<Rightarrow> js_error + account list"
  insert_user :: "jstring \<Rightarrow> jstring \<Rightarrow> jstring \<Rightarrow> js_error + unit"
  sp_dnc_history :: "jstring \<Rightarrow> js_error + row list"
  sp_dnc_lookup :: "jstring \<Rightarrow> int \<Rightarrow> js_error + row list"
  bcrypt_hash :: "jstring \<Rightarrow> nat \<Rightarrow> js_error + jstring"
  bcrypt_compare :: "jstring \<Rightarrow> jstring \<Rightarrow> js_error + bool"
  date_getTime :: "jstring \<Rightarrow> int option"
  toLowerCase :: "jstring \<Rightarrow> jstring"
  parseInt10 :: "jstring \<Rightarrow> number"
  type_error_message :: "jstring \<Rightarrow> jstring"
  stack_trace :: "jstring \<Rightarrow> jstring"
  time_at :: "nat \<Rightarrow> int"
  credentials_signin :: "identity option \<Rightarrow> signin_result option"

text \<open>
  A computation takes the world and returns the new world with a value or a thrown
  error: \<open>io_bind\<close> is sequencing (a thrown error skips the rest), \<open>io_catch\<close> is
  \<open>try ... catch\<close>.
\<close>

type_synonym 'a io = "world \<Rightarrow> (js_error + 'a) \<times> world"

definition io_return :: "'a \<Rightarrow> 'a io" where
  "io_return x = (\<lambda>w. (Inr x, w))"

definition io_throw :: "js_error \<Rightarrow> 'a io" where
  "io_throw e = (\<lambda>w. (Inl e, w))"

definition io_bind :: "'a io \<Rightarrow> ('a \<Rightarrow> 'b io) \<Rightarrow> 'b io" where
  "io_bind m k = (\<lambda>w. case m w of (Inl e, w') \<Rightarrow> (Inl e, w') | (Inr x, w') \<Rightarrow> k x w')"

definition io_catch :: "'a io \<Rightarrow> (js_error \<Rightarrow> 'a io) \<Rightarrow> 'a io" where
  "io_catch m h = (\<lambda>w. case m w of (Inl e, w') \<Rightarrow> h e w' | (Inr x, w') \<Rightarrow> (Inr x, w'))"

definition emit :: "event \<Rightarrow> unit io" where
  "emit ev = (\<lambda>w. (Inr (), w\<lparr>trace := trace w @ [ev]\<rparr>))"

definition external :: "event \<Rightarrow> js_error + 'a \<Rightarrow> 'a io" where
  "external ev outcome = (\<lambda>w. (outcome, w\<lparr>trace := trace w @ [ev]\<rparr>))"

definition date_now :: "env \<Rightarrow> int io" where
  "date_now en = (\<lambda>w. (Inr (time_at en (clock w)), w\<lparr>clock := Suc (clock w)\<rparr>))"

definition logger_info :: "jstring \<Rightarrow> unit io" where
  "logger_info m = emit (Log \<lparr>level = lit ''info'', msg = JStr m, meta = []\<rparr>)"

definition logger_warn :: "jstring \<Rightarrow> unit io" where
  "logger_warn m = emit (Log \<lparr>level = lit ''warn'', msg = JStr m, meta = []\<rparr>)"

definition logger_error :: "jstring \<Rightarrow> (jstring \<times> jsval) list \<Rightarrow> unit io" where
  "logger_error m kvs = emit (Log \<lparr>level = lit ''error'', msg = JStr m, meta = kvs\<rparr>)"

section \<open>The connection pool (\<open>lib/db.ts\<close>)\<close>

text \<open>\<open>!x\<close> for an environment variable: unset or empty.\<close>

definition unset :: "jstring option \<Rightarrow> bool" where
  "unset v = (case v of None \<Rightarrow> True | Some s \<Rightarrow> s = [])"

text \<open>
  \<open>new Error(m)\<close>, and the \<open>TypeError\<close> the engine throws at an expression of a handler:
  \<open>body\<close> for the destructuring of a \<open>null\<close> body, \<open>replace\<close> and \<open>split\<close> for the call of
  a method the value does not have.
\<close>

definition new_Error :: "env \<Rightarrow> jstring \<Rightarrow> js_error" where
  "new_Error en m =
     \<lparr>instance_of_Error = True, message = m, to_String = lit ''Error: '' @ m,
      stack = Some (stack_trace en m), number = None\<rparr>"

definition type_error :: "env \<Rightarrow> string \<Rightarrow> js_error" where
  "type_error en expr =
     \<lparr>instance_of_Error = True, message = type_error_message en (lit expr),
      to_String = lit ''TypeError: '' @ type_error_message en (lit expr),
      stack = Some (stack_trace en (type_error_message en (lit expr))), number = None\<rparr>"

definition missing_config_error :: "env \<Rightarrow> js_error" where
  "missing_config_error en =
     new_Error en
       (lit ''Missing required database environment variables. ''
        @ lit ''Ensure DB_SERVER, DB_DATABASE, DB_USER, and DB_PASSWORD are set in .env.local'')"

definition buildConfig :: "env \<Rightarrow> js_error + db_config" where
  "buildConfig en =
     (let server = process_env en (lit ''DB_SERVER'');
          database = process_env en (lit ''DB_DATABASE'');
          user = process_env en (lit ''DB_USER'');
          password = process_env en (lit ''DB_PASSWORD'')
      in if unset server \<or> unset database \<or> unset user \<or> unset password
         then Inl (missing_config_error en)
         else Inr \<lparr>cfg_server = the server,
                   cfg_port = parseInt10 en (if unset (process_env en (lit ''DB_PORT'')) then lit ''1433''
                                             else the (process_env en (lit ''DB_PORT''))),
                   cfg_database = the database,
                   cfg_user = the user,
                   cfg_password = the password,
                   encrypt = False,
                   trustServerCertificate = True,
                   enableArithAbort = True,
                   pool_max = 10,
                   pool_min = 0,
                   idleTimeoutMillis = 30000,
                   connectionTimeout = 15000,
                   requestTimeout = 30000\<rparr>)"

text \<open>
  \<open>sql.connect(buildConfig())\<close>: the arguments are evaluated first, so a missing
  variable throws before any connection is attempted. The \<open>error\<close> listener that
  \<open>getPool\<close> puts on a new pool runs later, outside the request (in production it
  clears \<open>_prodPool\<close>); a request may start in any state of the two variables.
\<close>

definition connect :: "env \<Rightarrow> pool io" where
  "connect en =
     (case buildConfig en of
        Inl e \<Rightarrow> io_throw e
      | Inr cfg \<Rightarrow> external (Connect cfg) (sql_connect en cfg))"

definition usable :: "pool option \<Rightarrow> bool" where
  "usable p = (case p of None \<Rightarrow> False | Some q \<Rightarrow> connected q)"

definition getPool :: "env \<Rightarrow> pool io" where
  "getPool en =
     (\<lambda>w. if process_env en (lit ''NODE_ENV'') = Some (lit ''development'') then
             (if \<not> usable (mssqlPool w) then
                io_bind (logger_info (lit ''Creating new MSSQL connection pool (development)''))
                  (\<lambda>_. io_bind (connect en)
                  (\<lambda>p. (\<lambda>w'. (Inr p, w'\<lparr>mssqlPool := Some p\<rparr>)))) w
              else (Inr (the (mssqlPool w)), w))
           else
             (if \<not> usable (prodPool w) then
                io_bind (logger_info (lit ''Creating new MSSQL connection pool (production)''))
                  (\<lambda>_. io_bind (connect en)
                  (\<lambda>p. (\<lambda>w'. (Inr p, w'\<lparr>prodPool := Some p\<rparr>)))) w
              else (Inr (the (prodPool w)), w)))"

text \<open>
  Loading the module runs its top-level statements: it declares \<open>_prodPool\<close> and reads
  nothing from the environment. (In development \<open>global._mssqlPool\<close> may survive a
  reload; a fresh process has none.)
\<close>

definition fresh_world :: world where
  "fresh_world = \<lparr>prodPool = None, mssqlPool = None, clock = 0, trace = []\<rparr>"

definition db_module_load :: "env \<Rightarrow> js_error + world" where
  "db_module_load en = Inr fresh_world"

section \<open>Authentication (\<open>lib/auth.ts\<close>, \<open>middleware.ts\<close>, the login page)\<close>

text \<open>
  \<open>authOptions.session\<close>: JWT sessions that last eight hours, in seconds. The tokens
  are issued and verified by NextAuth with \<open>NEXTAUTH_SECRET\<close>; the repository sets the
  lifetime and, in \<open>middleware.ts\<close>, the pages the middleware guards.
\<close>

definition session_maxAge :: nat where
  "session_maxAge = 8 * 60 * 60"

definition matcher_paths :: "jstring list" where
  "matcher_paths = [lit ''/dnc-lookup'', lit ''/dnc-history'']"

text \<open>
  The credentials the provider hands to \<open>authorize\<close> (\<open>undefined\<close> is \<open>None\<close>); the
  fields are \<open>username\<close> and \<open>password\<close> in the source.
\<close>

record credentials =
  cred_username :: jstring
  cred_password :: jstring

definition login_failed :: "string \<Rightarrow> jstring \<Rightarrow> jstring" where
  "login_failed reason name = lit ''Login failed: '' @ lit reason @ lit '' '' @ mdash @ lit '' '' @ name"

definition authorize :: "env \<Rightarrow> credentials option \<Rightarrow> identity option io" where
  "authorize en credentials =
     (if (case credentials of None \<Rightarrow> True
          | Some c \<Rightarrow> cred_username c = [] \<or> cred_password c = [])
      then io_bind (logger_warn (lit ''Login attempt with missing credentials''))
             (\<lambda>_. io_return None)
      else
        io_catch
          (io_bind (getPool en) (\<lambda>pool.
           io_bind (external (Sql (SelectUserByUsername (trim (cred_username (the credentials)))))
                      (select_user en (trim (cred_username (the credentials))))) (\<lambda>recordset.
           case recordset of
             [] \<Rightarrow>
               io_bind (logger_warn (login_failed ''user not found'' (cred_username (the credentials))))
                 (\<lambda>_. io_return None)
           | user # _ \<Rightarrow>
               if \<not> is_active user then
                 io_bind (logger_warn (login_failed ''account inactive'' (cred_username (the credentials))))
                   (\<lambda>_. io_return None)
               else
                 io_bind (external (BcryptCompare (cred_password (the credentials)) (password_hash user))
                            (bcrypt_compare en (cred_password (the credentials)) (password_hash user)))
                 (\<lambda>passwordMatch.
                   if \<not> passwordMatch then
                     io_bind (logger_warn (login_failed ''wrong password'' (cred_username (the credentials))))
                       (\<lambda>_. io_return None)
                   else
                     io_bind (logger_info (lit ''Login success '' @ mdash @ lit '' '' @ username user))
                       (\<lambda>_. io_return
                          (Some \<lparr>ident_id = show_int (user_id user), ident_name = username user,
                                 ident_email = email user\<rparr>))))))
          (\<lambda>err.
             io_bind (logger_error (lit ''Database error during authentication'')
                        [(lit ''err'', err_text err), (lit ''stack'', err_stack err)])
               (\<lambda>_. io_return None)))"

text \<open>
  \<open>signIn("credentials", {username, password, redirect: false})\<close>: NextAuth runs
  \<open>authorize\<close> on the server and answers the client from what it returned.
\<close>

definition signIn :: "env \<Rightarrow> credentials \<Rightarrow> signin_result option io" where
  "signIn en c = io_bind (authorize en (Some c)) (\<lambda>r. io_return (credentials_signin en r))"

text \<open>\<open>handleSubmit\<close> of the login page: what the user sees.\<close>

datatype login_view = ShowError jstring | Navigate jstring

definition truthy_error :: "signin_result option \<Rightarrow> bool" where
  "truthy_error result =
     (case result of None \<Rightarrow> False
      | Some r \<Rightarrow> (case signin_error r of None \<Rightarrow> False | Some e \<Rightarrow> e \<noteq> []))"

text \<open>The branch on \<open>result?.error\<close> after \<open>signIn\<close> has answered.\<close>

definition signin_view :: "signin_result option \<Rightarrow> login_view" where
  "signin_view result =
     (if truthy_error result
      then ShowError (lit ''Invalid username or password. Please try again.'')
      else Navigate (lit ''/dnc-lookup''))"

definition handleSubmit :: "env \<Rightarrow> jstring \<Rightarrow> jstring \<Rightarrow> login_view io" where
  "handleSubmit en name password =
     (if trim name = [] then io_return (ShowError (lit ''Username is required''))
      else if password = [] then io_return (ShowError (lit ''Password is required''))
      else
        io_bind (signIn en \<lparr>cred_username = trim name, cred_password = password\<rparr>) (\<lambda>result.
          io_return (signin_view result)))"

section \<open>The API routes\<close>

text \<open>
  A request as a handler sees it: what \<open>getServerSession(authOptions)\<close> returns
  (\<open>null\<close> is \<open>None\<close>) and what \<open>req.json()\<close> returns (\<open>None\<close> when it throws).

  For the two protected routes the body is any JSON value: their validation of the
  phone number and of the date is examined below on every body a client can send.
  For registration and forgot-password the body is taken at the type the handler
  declares for it, an optional field being an option: the properties of these two
  routes are about bodies whose fields are strings.
\<close>

record next_auth_session =
  session_user :: identity

record 'b request =
  session :: "next_auth_session option"
  json_body :: "'b option"

record forgot_body =
  forgot_email :: "jstring option"

record register_body =
  body_username :: "jstring option"
  body_email :: "jstring option"
  body_password :: "jstring option"

definition unauthorized :: response where
  "unauthorized = failure 401 (lit ''Unauthorized'')"

definition invalid_request_body :: response where
  "invalid_request_body = failure 400 (lit ''Invalid request body'')"

definition invalid_phone :: response where
  "invalid_phone = failure 400 (lit ''A valid 10-digit US phone number is required'')"

definition ok_rows :: "row list \<Rightarrow> response" where
  "ok_rows rows = \<lparr>status = 200, success = True, data = Some (Rows rows), error = None\<rparr>"

text \<open>The metadata of the \<open>unhandled error\<close> log lines.\<close>

definition error_meta :: "js_error \<Rightarrow> int \<Rightarrow> (jstring \<times> jsval) list" where
  "error_meta err elapsed =
     [(lit ''err'', err_text err), (lit ''stack'', err_stack err), (lit ''elapsed'', JNum elapsed)]"

definition rows_returned :: "string \<Rightarrow> jstring \<Rightarrow> nat \<Rightarrow> int \<Rightarrow> jstring" where
  "rows_returned route maskedPhone n elapsed =
     lit ''POST '' @ lit route @ lit '' '' @ mdash @ lit '' phone: '' @ maskedPhone @ lit '' ''
       @ mdash @ lit '' '' @ show_nat n @ lit '' row(s) returned ('' @ show_int elapsed @ lit ''ms)''"

text \<open>
  \<open>(phoneNumber ?? "").replace(/\D/g, "")\<close>: \<open>undefined\<close> and \<open>null\<close> give the empty string,
  a string gives its digits, and a value of any other JSON type has no function
  \<open>replace\<close> (\<open>None\<close>: the call throws a \<open>TypeError\<close>).
\<close>

definition rawPhone_of :: "json option \<Rightarrow> jstring option" where
  "rawPhone_of phoneNumber =
     (case phoneNumber of
        None \<Rightarrow> Some (strip_non_digits [])
      | Some JsonNull \<Rightarrow> Some (strip_non_digits [])
      | Some (JsonString p) \<Rightarrow> Some (strip_non_digits p)
      | Some _ \<Rightarrow> None)"

subsection \<open>\<open>POST /api/dnc-history\<close>\<close>

text \<open>
  \<open>const { phoneNumber } = body\<close> throws a \<open>TypeError\<close> when the body is \<open>null\<close>; both it and
  the one of \<open>replace\<close> are thrown inside the outer \<open>try\<close>.
\<close>

definition dnc_history_POST :: "env \<Rightarrow> json request \<Rightarrow> response io" where
  "dnc_history_POST en req =
     io_bind (date_now en) (\<lambda>startTime.
       case session req of
         None \<Rightarrow> io_return unauthorized
       | Some _ \<Rightarrow>
           io_catch
             (case json_body req of
                None \<Rightarrow> io_return invalid_request_body
              | Some body \<Rightarrow>
                  if body = JsonNull then io_throw (type_error en ''body'')
                  else
                    (case rawPhone_of (property body (lit ''phoneNumber'')) of
                       None \<Rightarrow> io_throw (type_error en ''replace'')
                     | Some rawPhone \<Rightarrow>
                         if length rawPhone \<noteq> 10 then io_return invalid_phone
                         else
                           (let maskedPhone = lit ''***-***-'' @ slice_last4 rawPhone
                            in io_bind (logger_info (lit ''POST /api/dnc-history '' @ mdash
                                           @ lit '' phone: '' @ maskedPhone)) (\<lambda>_.
                               io_bind (getPool en) (\<lambda>pool.
                               io_bind (external (Sql (Exec_sp_dnc_history rawPhone))
                                          (sp_dnc_history en rawPhone)) (\<lambda>rows.
                               io_bind (date_now en) (\<lambda>now.
                               io_bind (logger_info (rows_returned ''/api/dnc-history'' maskedPhone
                                           (length rows) (now - startTime))) (\<lambda>_.
                               io_return (ok_rows rows)))))))))
             (\<lambda>err.
                io_bind (date_now en) (\<lambda>now.
                io_bind (logger_error (lit ''POST /api/dnc-history '' @ mdash @ lit '' unhandled error'')
                           (error_meta err (now - startTime))) (\<lambda>_.
                io_return (failure 500 (lit ''History lookup failed. Please try again.''))))))"

subsection \<open>\<open>POST /api/dnc-lookup\<close>\<close>

text \<open>
  \<open>const [month, day, year] = lookupDate.split("/")\<close> and the template string
  \<open>`${year}-${month}-${day}`\<close>: a missing part is \<open>undefined\<close> and prints as such.
\<close>

definition template_part :: "jstring list \<Rightarrow> nat \<Rightarrow> jstring" where
  "template_part parts n = (if n < length parts then parts ! n else lit ''undefined'')"

definition date_string :: "jstring \<Rightarrow> jstring" where
  "date_string d =
     (let parts = split_on 47 d
      in template_part parts 2 @ lit ''-'' @ template_part parts 0 @ lit ''-'' @ template_part parts 1)"

text \<open>
  After \<open>if (!lookupDate)\<close> the date is truthy; \<open>lookupDate.split("/")\<close> then throws a
  \<open>TypeError\<close> unless it is a string.
\<close>

definition dnc_lookup_POST :: "env \<Rightarrow> json request \<Rightarrow> response io" where
  "dnc_lookup_POST en req =
     io_bind (date_now en) (\<lambda>startTime.
       case session req of
         None \<Rightarrow> io_return unauthorized
       | Some _ \<Rightarrow>
           io_catch
             (case json_body req of
                None \<Rightarrow> io_return invalid_request_body
              | Some body \<Rightarrow>
                  if body = JsonNull
                  then io_throw (type_error en ''body'')
                  else
                    (case rawPhone_of (property body (lit ''phoneNumber'')) of
                       None \<Rightarrow> io_throw (type_error en ''replace'')
                     | Some rawPhone \<Rightarrow>
                         if length rawPhone \<noteq> 10 then io_return invalid_phone
                         else if falsy (property body (lit ''lookupDate''))
                         then io_return (failure 400 (lit ''Lookup date is required''))
                         else
                           (case property body (lit ''lookupDate'') of
                              Some (JsonString lookupDate) \<Rightarrow>
                                (case date_getTime en (date_string lookupDate) of
                                   None \<Rightarrow>
                                     io_return (failure 400
                                       (lit ''Lookup date must be in MM/DD/YYYY format''))
                                 | Some parsedDate \<Rightarrow>
                                     (let maskedPhone = lit ''***-***-'' @ slice_last4 rawPhone
                                      in io_bind (logger_info (lit ''POST /api/dnc-lookup '' @ mdash
                                                     @ lit '' phone: '' @ maskedPhone @ lit '', date: ''
                                                     @ lookupDate)) (\<lambda>_.
                                         io_bind (getPool en) (\<lambda>pool.
                                         io_bind (external (Sql (Exec_sp_dnc_lookup rawPhone parsedDate))
                                                    (sp_dnc_lookup en rawPhone parsedDate)) (\<lambda>rows.
                                         io_bind (date_now en) (\<lambda>now.
                                         io_bind (logger_info (rows_returned ''/api/dnc-lookup''
                                                     maskedPhone (length rows) (now - startTime))) (\<lambda>_.
                                         io_return (ok_rows rows))))))))
                            | _ \<Rightarrow> io_throw (type_error en ''split''))))
             (\<lambda>err.
                io_bind (date_now en) (\<lambda>now.
                io_bind (logger_error (lit ''POST /api/dnc-lookup '' @ mdash @ lit '' unhandled error'')
                           (error_meta err (now - startTime))) (\<lambda>_.
                io_return (failure 500 (lit ''Lookup failed. Please try again.''))))))"

subsection \<open>\<open>POST /api/forgot-password\<close>\<close>

definition reset_message :: response where
  "reset_message =
     \<lparr>status = 200, success = True,
      data = Some (Message (lit ''If an account with that email exists, ''
               @ lit ''you will receive a password reset link shortly.'')),
      error = None\<rparr>"

text \<open>\<open>!email.includes("@") || !email.includes(".")\<close>\<close>

definition malformed_email :: "jstring \<Rightarrow> bool" where
  "malformed_email e = (\<not> (str_includes e (lit ''@'') \<and> str_includes e (lit ''.'')))"

definition forgot_password_POST :: "env \<Rightarrow> forgot_body request \<Rightarrow> response io" where
  "forgot_password_POST en req =
     io_bind (date_now en) (\<lambda>startTime.
       io_catch
         (case json_body req of
            None \<Rightarrow> io_return invalid_request_body
          | Some body \<Rightarrow>
              (let email = map_option (\<lambda>e. toLowerCase en (trim e)) (forgot_email body)
               in if unset email then io_return (failure 400 (lit ''Email address is required''))
                  else if malformed_email (the email)
                  then io_return (failure 400 (lit ''Please enter a valid email address''))
                  else
                    io_bind
                      (io_catch
                         (io_bind (getPool en) (\<lambda>pool.
                          io_bind (external (Sql (SelectActiveUserByEmail (the email)))
                                     (select_active_account en (the email))) (\<lambda>recordset.
                          case recordset of
                            user # _ \<Rightarrow>
                              io_bind (emit (ConsoleLog
                                         (lit ''[TODO] Password reset requested for: '' @ account.email user
                                            @ lit '' (userId: '' @ show_int (user_id user) @ lit '')'')))
                                (\<lambda>_. logger_info (lit ''Password reset requested for account: ''
                                                     @ username user))
                          | [] \<Rightarrow>
                              logger_info (lit ''Password reset requested for unknown email (suppressed)''))))
                         (\<lambda>dbErr.
                            logger_error (lit ''POST /api/forgot-password '' @ mdash
                                            @ lit '' DB error during user lookup'')
                              [(lit ''err'', err_text dbErr)]))
                      (\<lambda>_.
                         io_bind (date_now en) (\<lambda>now.
                         io_bind (logger_info (lit ''POST /api/forgot-password '' @ mdash
                                     @ lit '' completed ('' @ show_int (now - startTime) @ lit ''ms)'')) (\<lambda>_.
                         io_return reset_message)))))
         (\<lambda>err.
            io_bind (logger_error (lit ''POST /api/forgot-password '' @ mdash @ lit '' unhandled error'')
                       [(lit ''err'', err_text err), (lit ''stack'', err_stack err)]) (\<lambda>_.
            io_return (failure 500 (lit ''Request failed. Please try again.'')))))"

subsection \<open>\<open>POST /api/register\<close>\<close>

definition MIN_USERNAME_LENGTH :: nat where
  "MIN_USERNAME_LENGTH = 3"

definition MAX_USERNAME_LENGTH :: nat where
  "MAX_USERNAME_LENGTH = 100"

definition MIN_PASSWORD_LENGTH :: nat where
  "MIN_PASSWORD_LENGTH = 8"

definition conflict :: response where
  "conflict = failure 409 (lit ''Username or email already exists'')"

text \<open>\<open>sqlErr?.number === 2627 || sqlErr?.number === 2601\<close>\<close>

definition unique_violation :: "js_error \<Rightarrow> bool" where
  "unique_violation err = (number err = Some 2627 \<or> number err = Some 2601)"

definition register_POST :: "env \<Rightarrow> register_body request \<Rightarrow> response io" where
  "register_POST en req =
     io_bind (date_now en) (\<lambda>startTime.
       io_catch
         (case json_body req of
            None \<Rightarrow> io_return invalid_request_body
          | Some body \<Rightarrow>
              if unset (body_username body) \<or> unset (body_email body) \<or> unset (body_password body)
              then io_return (failure 400 (lit ''Username, email, and password are required''))
              else
                (let trimmedUsername = trim (the (body_username body));
                     trimmedEmail = toLowerCase en (trim (the (body_email body)));
                     password = the (body_password body)
                 in if length trimmedUsername < MIN_USERNAME_LENGTH
                    then io_return (failure 400 (lit ''Username must be at least ''
                                      @ show_nat MIN_USERNAME_LENGTH @ lit '' characters''))
                    else if length trimmedUsername > MAX_USERNAME_LENGTH
                    then io_return (failure 400 (lit ''Username is too long''))
                    else if malformed_email trimmedEmail
                    then io_return (failure 400 (lit ''Please enter a valid email address''))
                    else if length password < MIN_PASSWORD_LENGTH
                    then io_return (failure 400 (lit ''Password must be at least ''
                                      @ show_nat MIN_PASSWORD_LENGTH @ lit '' characters''))
                    else
                      io_bind (external (BcryptHash password 12) (bcrypt_hash en password 12))
                      (\<lambda>passwordHash.
                      io_bind (getPool en) (\<lambda>pool.
                      io_bind (external (Sql (InsertUser trimmedUsername trimmedEmail passwordHash))
                                 (insert_user en trimmedUsername trimmedEmail passwordHash)) (\<lambda>_.
                      io_bind (date_now en) (\<lambda>now.
                      io_bind (logger_info (lit ''POST /api/register '' @ mdash @ lit '' user created: ''
                                  @ trimmedUsername @ lit '' ('' @ show_int (now - startTime)
                                  @ lit ''ms)'')) (\<lambda>_.
                      io_return \<lparr>status = 201, success = True, data = None, error = None\<rparr>)))))))
         (\<lambda>err.
            io_bind (date_now en) (\<lambda>now.
              if unique_violation err then
                io_bind (logger_warn (lit ''POST /api/register '' @ mdash @ lit '' duplicate user (''
                           @ show_int (now - startTime) @ lit ''ms)'')) (\<lambda>_.
                io_return conflict)
              else
                io_bind (logger_error (lit ''POST /api/register '' @ mdash @ lit '' unhandled error'')
                           (error_meta err (now - startTime))) (\<lambda>_.
                io_return (failure 500 (lit ''Registration failed. Please try again.''))))))"

section \<open>A concrete installation\<close>

text \<open>
  A database with two accounts (the second one inactive), a driver that reports a
  duplicate key with error number 2601, a bcrypt whose digest is the password behind a
  prefix, a \<open>Date\<close> that answers three strings as the one of Node.js does
  (\<open>2024-01-15\<close> is that day, \<open>2024-02-30\<close> rolls over to the first of March, and
  \<open>2024-13-45\<close> is invalid, as is any other string here), and a \<open>parseInt\<close> that knows the
  default port. The theorems below are instantiated at it.
\<close>

definition example_users :: "user list" where
  "example_users =
     [\<lparr>user_id = 1, username = lit ''alice'', email = lit ''alice@x.com'',
       password_hash = lit ''$2a$12$'' @ lit ''password123'', is_active = True\<rparr>,
      \<lparr>user_id = 2, username = lit ''bob'', email = lit ''bob@x.com'',
       password_hash = lit ''$2a$12$'' @ lit ''hunter2hunter2'', is_active = False\<rparr>]"

definition duplicate_key_error :: js_error where
  "duplicate_key_error =
     \<lparr>instance_of_Error = True,
      message = lit ''Cannot insert duplicate key row in object dbo.users'',
      to_String = lit ''RequestError: Cannot insert duplicate key row in object dbo.users'',
      stack = None, number = Some 2601\<rparr>"

definition example_process_env :: "jstring \<Rightarrow> jstring option" where
  "example_process_env k =
     (if k = lit ''DB_SERVER'' then Some (lit ''sql01'')
      else if k = lit ''DB_DATABASE'' then Some (lit ''DNC'')
      else if k = lit ''DB_USER'' then Some (lit ''dnc_app'')
      else if k = lit ''DB_PASSWORD'' then Some (lit ''s3cret'')
      else if k = lit ''NODE_ENV'' then Some (lit ''production'')
      else None)"

definition ascii_lower :: "jstring \<Rightarrow> jstring" where
  "ascii_lower s = map (\<lambda>c. if 65 \<le> c \<and> c \<le> 90 then c + 32 else c) s"

definition example_env :: env where
  "example_env =
     \<lparr>process_env = example_process_env,
      sql_connect = (\<lambda>cfg. Inr \<lparr>connected = True\<rparr>),
      select_user = (\<lambda>name. Inr (filter (\<lambda>u. username u = name) example_users)),
      select_active_account =
        (\<lambda>e. Inr (map (\<lambda>u. \<lparr>user_id = user_id u, username = username u, email = email u\<rparr>)
                    (filter (\<lambda>u. email u = e \<and> is_active u) example_users))),
      insert_user =
        (\<lambda>name e h. if name \<in> set (map username example_users) \<or> e \<in> set (map email example_users)
                   then Inl duplicate_key_error else Inr ()),
      sp_dnc_history = (\<lambda>phone. Inr [[(lit ''PhoneNumber'', JStr phone)]]),
      sp_dnc_lookup = (\<lambda>phone day. Inr [[(lit ''PhoneNumber'', JStr phone)]]),
      bcrypt_hash = (\<lambda>password cost. Inr (lit ''$2a$12$'' @ password)),
      bcrypt_compare = (\<lambda>password digest. Inr (digest = lit ''$2a$12$'' @ password)),
      date_getTime =
        (\<lambda>s. if s = lit ''2024-01-15'' then Some 1705276800000
             else if s = lit ''2024-02-30'' then Some 1709251200000
             else None),
      toLowerCase = ascii_lower,
      parseInt10 = (\<lambda>s. if s = lit ''1433'' then Finite 1433 0 else NaN),
      type_error_message = (\<lambda>expr. expr @ lit '' is not valid''),
      stack_trace = (\<lambda>m. lit ''Error: '' @ m @ lit '' at POST''),
      time_at = (\<lambda>n. 1000 + 7 * int n),
      credentials_signin =
        (\<lambda>r. case r of
               None \<Rightarrow> Some \<lparr>signin_error = Some (lit ''CredentialsSignin''), signin_status = 401,
                              signin_ok = False, signin_url = None\<rparr>
             | Some _ \<Rightarrow> Some \<lparr>signin_error = None, signin_status = 200,
                                signin_ok = True, signin_url = Some (lit ''/login'')\<rparr>)\<rparr>"

text \<open>The same installation started without any environment variable.\<close>

definition bare_env :: env where
  "bare_env = example_env\<lparr>process_env := (\<lambda>k. None)\<rparr>"

definition example_session :: next_auth_session where
  "example_session =
     \<lparr>session_user = \<lparr>ident_id = lit ''1'', ident_name = lit ''alice'',
                       ident_email = lit ''alice@x.com''\<rparr>\<rparr>"

definition history_request :: "next_auth_session option \<Rightarrow> string \<Rightarrow> json request" where
  "history_request s phone =
     \<lparr>session = s, json_body = Some (JsonObject [(lit ''phoneNumber'', JsonString (lit phone))])\<rparr>"

definition lookup_request ::
    "next_auth_session option \<Rightarrow> string \<Rightarrow> string \<Rightarrow> json request" where
  "lookup_request s phone day =
     \<lparr>session = s,
      json_body = Some (JsonObject [(lit ''phoneNumber'', JsonString (lit phone)),
                                    (lit ''lookupDate'', JsonString (lit day))])\<rparr>"

text \<open>A request whose body is the given JSON text, parsed.\<close>

definition json_request :: "next_auth_session option \<Rightarrow> json \<Rightarrow> json request" where
  "json_request s body = \<lparr>session = s, json_body = Some body\<rparr>"

definition register_request :: "string \<Rightarrow> string \<Rightarrow> string \<Rightarrow> register_body request" where
  "register_request name e password =
     \<lparr>session = None,
      json_body = Some \<lparr>body_username = Some (lit name), body_email = Some (lit e),
                        body_password = Some (lit password)\<rparr>\<rparr>"

definition forgot_request :: "string \<Rightarrow> forgot_body request" where
  "forgot_request e = \<lparr>session = None, json_body = Some \<lparr>forgot_email = Some (lit e)\<rparr>\<rparr>"

definition unparseable :: "next_auth_session option \<Rightarrow> 'b request" where
  "unparseable s = \<lparr>session = s, json_body = None\<rparr>"

text \<open>
  The record of an uncaught exception whose message and stack carry a phone number,
  as winston's exception handler builds it, and the one of an unhandled rejection.
\<close>

definition phone_record :: info where
  "phone_record =
     \<lparr>level = lit ''error'',
      msg = JStr (lit ''uncaughtException: no route to 2125551234''),
      meta = [(lit ''stack'', JStr (lit ''at dial (212) 555-1234'')), (lit ''exception'', JBool True)]\<rparr>"

definition rejection_record :: info where
  "rejection_record =
     \<lparr>level = lit ''error'',
      msg = JStr (lit ''unhandledRejection: no route to 2125551234''),
      meta = [(lit ''stack'', JStr (lit ''at dial (212) 555-1234'')), (lit ''rejection'', JBool True)]\<rparr>"

section \<open>Properties\<close>

lemma clock_fresh_world: "clock fresh_world = 0"
  by (simp add: fresh_world_def)

lemma trace_fresh_world: "trace fresh_world = []"
  by (simp add: fresh_world_def)

lemmas io_defs = io_bind_def io_return_def io_throw_def io_catch_def emit_def external_def
  date_now_def logger_info_def logger_warn_def logger_error_def

subsection \<open>The auth guard of the two protected routes\<close>

text \<open>
  Claim C2. A lookup or history request without a session (\<open>getServerSession\<close> returned
  \<open>null\<close>) is answered with 401 \<open>Unauthorized\<close> and nothing else happens: the handler
  has read the clock once, the trace is as it was (no log line, no connection, no
  statement, no stored procedure) and both pool variables are untouched.
\<close>

theorem no_session_no_work:
  assumes "session h = None" and "session l = None"
  shows "dnc_history_POST en h w = (Inr unauthorized, w\<lparr>clock := Suc (clock w)\<rparr>)
       \<and> dnc_lookup_POST en l w = (Inr unauthorized, w\<lparr>clock := Suc (clock w)\<rparr>)
       \<and> trace (snd (dnc_history_POST en h w)) = trace w
       \<and> prodPool (snd (dnc_history_POST en h w)) = prodPool w
       \<and> mssqlPool (snd (dnc_history_POST en h w)) = mssqlPool w
       \<and> trace (snd (dnc_lookup_POST en l w)) = trace w
       \<and> prodPool (snd (dnc_lookup_POST en l w)) = prodPool w
       \<and> mssqlPool (snd (dnc_lookup_POST en l w)) = mssqlPool w
       \<and> status unauthorized = 401 \<and> \<not> success unauthorized
       \<and> error unauthorized = Some (lit ''Unauthorized'')"
  using assms
  by (simp add: dnc_history_POST_def dnc_lookup_POST_def io_defs unauthorized_def failure_def)

theorem no_session_no_work_witness:
  "dnc_history_POST example_env (history_request None ''2125551234'') fresh_world
     = (Inr unauthorized, fresh_world\<lparr>clock := 1\<rparr>)
   \<and> dnc_lookup_POST example_env (lookup_request None ''2125551234'' ''01/15/2024'') fresh_world
     = (Inr unauthorized, fresh_world\<lparr>clock := 1\<rparr>)
   \<and> trace (snd (dnc_history_POST example_env (history_request None ''2125551234'') fresh_world))
     = trace fresh_world"
proof -
  have h: "session (history_request None ''2125551234'') = None"
    and l: "session (lookup_request None ''2125551234'' ''01/15/2024'') = None"
    by (simp_all add: history_request_def lookup_request_def)
  from no_session_no_work [OF h l, where en = example_env and w = fresh_world]
  show ?thesis
    by (simp add: clock_fresh_world)
qed

subsection \<open>The body of a lookup or history request\<close>

lemma property_JsonNull: "property JsonNull k = None"
  by (simp add: property_def)

lemma split_on_no_sep: "sep \<notin> set a \<Longrightarrow> split_on sep a = [a]"
  by (induction a) auto

lemma split_on_first: "sep \<notin> set a \<Longrightarrow> split_on sep (a @ sep # rest) = a # split_on sep rest"
  by (induction a) auto

lemma date_string_parts:
  assumes "47 \<notin> set mm" and "47 \<notin> set dd" and "47 \<notin> set yyyy"
  shows "date_string (mm @ 47 # dd @ 47 # yyyy) = yyyy @ lit ''-'' @ mm @ lit ''-'' @ dd"
  using assms
  by (simp add: date_string_def template_part_def split_on_first split_on_no_sep)



lemma strip_non_digits_filter: "strip_non_digits p = filter (\<lambda>c. 48 \<le> c \<and> c \<le> 57) p"
  by (simp add: strip_non_digits_def is_digit_def [abs_def])

lemma rawPhone_of_simps:
  "rawPhone_of None = Some []"
  "rawPhone_of (Some JsonNull) = Some []"
  "rawPhone_of (Some (JsonString p)) = Some (filter (\<lambda>c. 48 \<le> c \<and> c \<le> 57) p)"
  "rawPhone_of (Some (JsonBool b)) = None"
  "rawPhone_of (Some (JsonNumber n)) = None"
  "rawPhone_of (Some (JsonArray vs)) = None"
  "rawPhone_of (Some (JsonObject kvs)) = None"
  by (simp_all add: rawPhone_of_def strip_non_digits_filter)








subsection \<open>What \<open>getPool\<close> leaves alone, and the calls of the stored procedures\<close>

lemma getPool_trace:
  "getPool en w = (r, w') \<Longrightarrow>
     filter is_decision_service_call (trace w') = filter is_decision_service_call (trace w)
     \<and> clock w' = clock w"
  by (auto simp add: getPool_def connect_def io_defs split: if_splits sum.splits prod.splits)

lemma getPool_frame:
  "prodPool w' = prodPool w \<Longrightarrow> mssqlPool w' = mssqlPool w \<Longrightarrow>
     fst (getPool en w') = fst (getPool en w)"
  by (auto simp add: getPool_def connect_def io_defs split: if_splits sum.splits prod.splits)

lemma history_calls:
  assumes "property hb (lit ''phoneNumber'') = Some (JsonString p)"
  shows "filter is_decision_service_call
      (trace (snd (dnc_history_POST en \<lparr>session = s, json_body = Some hb\<rparr> w)))
   = filter is_decision_service_call (trace w)
     @ (if s \<noteq> None \<and> length (filter (\<lambda>c. 48 \<le> c \<and> c \<le> 57) p) = 10
           \<and> (\<exists>pl. fst (getPool en w) = Inr pl)
        then [Sql (Exec_sp_dnc_history (filter (\<lambda>c. 48 \<le> c \<and> c \<le> 57) p))] else [])"
proof -
  let ?r = "filter (\<lambda>c. 48 \<le> c \<and> c \<le> 57) p"
  let ?w1 = "w\<lparr>clock := Suc (clock w),
      trace := trace w @ [Log \<lparr>level = lit ''info'',
         msg = JStr (lit ''POST /api/dnc-history '' @ mdash @ lit '' phone: ''
                      @ lit ''***-***-'' @ slice_last4 ?r), meta = []\<rparr>]\<rparr>"
  have n: "hb \<noteq> JsonNull"
    using assms by (auto simp add: property_JsonNull)
  obtain r w2 where g: "getPool en ?w1 = (r, w2)"
    by (cases "getPool en ?w1")
  have f: "fst (getPool en w) = r"
    using getPool_frame [of ?w1 w en] g by simp
  have t: "filter is_decision_service_call (trace w2) = filter is_decision_service_call (trace w)"
    using getPool_trace [OF g] by simp
  show ?thesis
    using g f t n assms
    by (cases r; cases "sp_dnc_history en ?r")
       (auto simp add: dnc_history_POST_def io_defs Let_def rawPhone_of_simps split: option.splits)
qed

lemma lookup_calls:
  assumes "property lb (lit ''phoneNumber'') = Some (JsonString p)"
    and "property lb (lit ''lookupDate'') = Some (JsonString d)" and "d \<noteq> []"
  shows "filter is_decision_service_call
      (trace (snd (dnc_lookup_POST en \<lparr>session = s, json_body = Some lb\<rparr> w)))
   = filter is_decision_service_call (trace w)
     @ (if s \<noteq> None \<and> length (filter (\<lambda>c. 48 \<le> c \<and> c \<le> 57) p) = 10
           \<and> (\<exists>pl. fst (getPool en w) = Inr pl)
        then (case date_getTime en (date_string d) of
                None \<Rightarrow> []
              | Some t \<Rightarrow> [Sql (Exec_sp_dnc_lookup (filter (\<lambda>c. 48 \<le> c \<and> c \<le> 57) p) t)])
        else [])"
proof -
  let ?r = "filter (\<lambda>c. 48 \<le> c \<and> c \<le> 57) p"
  let ?w1 = "w\<lparr>clock := Suc (clock w),
      trace := trace w @ [Log \<lparr>level = lit ''info'',
         msg = JStr (lit ''POST /api/dnc-lookup '' @ mdash @ lit '' phone: ''
                      @ lit ''***-***-'' @ slice_last4 ?r @ lit '', date: '' @ d), meta = []\<rparr>]\<rparr>"
  have n: "lb \<noteq> JsonNull"
    using assms(1) by (auto simp add: property_JsonNull)
  have fl: "\<not> falsy (property lb (lit ''lookupDate''))"
    using assms(2,3) by (simp add: falsy_def)
  obtain r w2 where g: "getPool en ?w1 = (r, w2)"
    by (cases "getPool en ?w1")
  have f: "fst (getPool en w) = r"
    using getPool_frame [of ?w1 w en] g by simp
  have t: "filter is_decision_service_call (trace w2) = filter is_decision_service_call (trace w)"
    using getPool_trace [OF g] by simp
  show ?thesis
  proof (cases "date_getTime en (date_string d)")
    case None
    then show ?thesis
      using n fl assms
      by (cases s) (simp_all add: dnc_lookup_POST_def io_defs rawPhone_of_simps)
  next
    case (Some t')
    then show ?thesis
      using g f t n fl assms
      by (cases r; cases "sp_dnc_lookup en ?r t'")
         (auto simp add: dnc_lookup_POST_def io_defs Let_def rawPhone_of_simps split: option.splits)
  qed
qed


subsection \<open>The concrete installation\<close>

lemma buildConfig_example:
  "buildConfig example_env =
     Inr \<lparr>cfg_server = lit ''sql01'', cfg_port = Finite 1433 0, cfg_database = lit ''DNC'',
          cfg_user = lit ''dnc_app'', cfg_password = lit ''s3cret'', encrypt = False,
          trustServerCertificate = True, enableArithAbort = True, pool_max = 10, pool_min = 0,
          idleTimeoutMillis = 30000, connectionTimeout = 15000, requestTimeout = 30000\<rparr>"
  by (simp add: buildConfig_def example_env_def example_process_env_def unset_def lit_def Let_def)

lemma getPool_example: "fst (getPool example_env fresh_world) = Inr \<lparr>connected = True\<rparr>"
proof -
  have "sql_connect example_env = (\<lambda>cfg. Inr \<lparr>connected = True\<rparr>)"
    and "process_env example_env (lit ''NODE_ENV'') = Some (lit ''production'')"
    by (simp_all add: example_env_def example_process_env_def lit_def)
  moreover have "lit ''production'' \<noteq> lit ''development''"
    by (simp add: lit_def)
  ultimately show ?thesis
    by (simp add: getPool_def connect_def buildConfig_example io_defs usable_def fresh_world_def)
qed

lemma property_examples:
  "property (JsonObject [(lit ''phoneNumber'', v)]) (lit ''phoneNumber'') = Some v"
  "property (JsonObject [(lit ''phoneNumber'', v)]) (lit ''lookupDate'') = None"
  "property (JsonObject [(lit ''phoneNumber'', v), (lit ''lookupDate'', d)]) (lit ''phoneNumber'')
     = Some v"
  "property (JsonObject [(lit ''phoneNumber'', v), (lit ''lookupDate'', d)]) (lit ''lookupDate'')
     = Some d"
  by (simp_all add: property_def lit_def)

lemma example_requests:
  "session (history_request s phone) = s"
  "json_body (history_request s phone)
     = Some (JsonObject [(lit ''phoneNumber'', JsonString (lit phone))])"
  "session (lookup_request s phone day) = s"
  "json_body (lookup_request s phone day)
     = Some (JsonObject [(lit ''phoneNumber'', JsonString (lit phone)),
                         (lit ''lookupDate'', JsonString (lit day))])"
  "session (json_request s body) = s"
  "json_body (json_request s body) = Some body"
  by (simp_all add: history_request_def lookup_request_def json_request_def)



subsection \<open>Validation before dispatch\<close>




subsection \<open>A body that is not JSON\<close>

text \<open>
  Claim C10, as stated, fails for the two protected routes at a request without a
  session: the answer is the 401 of the auth guard, which runs before the body is read.
\<close>

theorem unparseable_body_counterexample:
  "fst (dnc_history_POST example_env (unparseable None) fresh_world) = Inr unauthorized
   \<and> fst (dnc_lookup_POST example_env (unparseable None) fresh_world) = Inr unauthorized
   \<and> status unauthorized = 401 \<and> status unauthorized \<noteq> 400
   \<and> json_body (unparseable None :: json request) = None"
  by (simp add: dnc_history_POST_def dnc_lookup_POST_def io_defs unauthorized_def failure_def
      unparseable_def)

text \<open>
  Claim C10, amended. When \<open>req.json()\<close> throws, the registration and forgot-password
  routes, and the lookup and history routes for a request with a session, answer 400
  with \<open>{success: false, error: "Invalid request body"}\<close>; without a session the two
  protected routes answer 401. In every case the handler stops there: the world is
  unchanged but for the clock reading, so nothing was hashed, logged or sent to the
  database, and the answer is never a 500.
\<close>

theorem unparseable_body_is_400:
  assumes "json_body r = None" and "json_body f = None"
    and "json_body h = None" and "json_body l = None"
  shows "register_POST en r w = (Inr invalid_request_body, w\<lparr>clock := Suc (clock w)\<rparr>)
       \<and> forgot_password_POST en f w = (Inr invalid_request_body, w\<lparr>clock := Suc (clock w)\<rparr>)
       \<and> dnc_history_POST en h w =
           (Inr (if session h = None then unauthorized else invalid_request_body),
            w\<lparr>clock := Suc (clock w)\<rparr>)
       \<and> dnc_lookup_POST en l w =
           (Inr (if session l = None then unauthorized else invalid_request_body),
            w\<lparr>clock := Suc (clock w)\<rparr>)
       \<and> status invalid_request_body = 400 \<and> \<not> success invalid_request_body
       \<and> error invalid_request_body = Some (lit ''Invalid request body'')"
  using assms
  by (simp add: register_POST_def forgot_password_POST_def dnc_history_POST_def
      dnc_lookup_POST_def io_defs invalid_request_body_def failure_def split: option.splits)

theorem unparseable_body_is_400_witness:
  "register_POST example_env (unparseable None) fresh_world
     = (Inr invalid_request_body, fresh_world\<lparr>clock := 1\<rparr>)
   \<and> forgot_password_POST example_env (unparseable None) fresh_world
     = (Inr invalid_request_body, fresh_world\<lparr>clock := 1\<rparr>)
   \<and> dnc_history_POST example_env (unparseable (Some example_session)) fresh_world
     = (Inr invalid_request_body, fresh_world\<lparr>clock := 1\<rparr>)
   \<and> dnc_lookup_POST example_env (unparseable (Some example_session)) fresh_world
     = (Inr invalid_request_body, fresh_world\<lparr>clock := 1\<rparr>)
   \<and> status invalid_request_body = 400"
proof -
  have r: "json_body (unparseable None :: register_body request) = None"
    and f: "json_body (unparseable None :: forgot_body request) = None"
    and h: "json_body (unparseable (Some example_session) :: json request) = None"
    and l: "json_body (unparseable (Some example_session) :: json request) = None"
    by (simp_all add: unparseable_def)
  have s: "session (unparseable (Some example_session) :: json request) \<noteq> None"
    by (simp add: unparseable_def)
  from unparseable_body_is_400 [OF r f h l, where en = example_env and w = fresh_world] s
  show ?thesis
    by (auto simp add: clock_fresh_world)
qed

subsection \<open>The phone number that is sent\<close>

text \<open>
  Claim C6. Take two phone inputs with the same digits (the code units 48 to 57, in
  order), in two history requests and in two lookup requests for the same date
  \<open>mm/dd/yyyy\<close> (47 is the slash). The two history runs are the same run and so are the
  two lookup runs: the same answer, the same log lines, the same statement. The history
  handler calls its stored procedure exactly when the request has a session, the digits
  are ten and the pool is obtained, and the lookup handler when moreover the \<open>Date\<close>
  built from \<open>yyyy-mm-dd\<close> is valid. The \<open>@PhoneNumber\<close> of that one call is the
  sequence of the digits of the input, nothing else done to it.
\<close>

theorem same_digits_same_query:
  assumes "filter (\<lambda>c. 48 \<le> c \<and> c \<le> 57) p = filter (\<lambda>c. 48 \<le> c \<and> c \<le> 57) q"
    and "property ha (lit ''phoneNumber'') = Some (JsonString p)"
    and "property hb (lit ''phoneNumber'') = Some (JsonString q)"
    and "property la (lit ''phoneNumber'') = Some (JsonString p)"
    and "property lb (lit ''phoneNumber'') = Some (JsonString q)"
    and "property la (lit ''lookupDate'') = Some (JsonString (mm @ 47 # dd @ 47 # yyyy))"
    and "property lb (lit ''lookupDate'') = Some (JsonString (mm @ 47 # dd @ 47 # yyyy))"
    and "47 \<notin> set mm" and "47 \<notin> set dd" and "47 \<notin> set yyyy"
  shows "dnc_history_POST en \<lparr>session = s, json_body = Some ha\<rparr> w
           = dnc_history_POST en \<lparr>session = s, json_body = Some hb\<rparr> w
       \<and> dnc_lookup_POST en \<lparr>session = s, json_body = Some la\<rparr> w
           = dnc_lookup_POST en \<lparr>session = s, json_body = Some lb\<rparr> w
       \<and> filter is_decision_service_call
            (trace (snd (dnc_history_POST en \<lparr>session = s, json_body = Some ha\<rparr> w)))
           = filter is_decision_service_call (trace w)
             @ (if s \<noteq> None \<and> length (filter (\<lambda>c. 48 \<le> c \<and> c \<le> 57) p) = 10
                   \<and> (\<exists>pl. fst (getPool en w) = Inr pl)
                then [Sql (Exec_sp_dnc_history (filter (\<lambda>c. 48 \<le> c \<and> c \<le> 57) p))] else [])
       \<and> filter is_decision_service_call
            (trace (snd (dnc_lookup_POST en \<lparr>session = s, json_body = Some la\<rparr> w)))
           = filter is_decision_service_call (trace w)
             @ (if s \<noteq> None \<and> length (filter (\<lambda>c. 48 \<le> c \<and> c \<le> 57) p) = 10
                   \<and> (\<exists>pl. fst (getPool en w) = Inr pl)
                then (case date_getTime en (yyyy @ lit ''-'' @ mm @ lit ''-'' @ dd) of
                        None \<Rightarrow> []
                      | Some t \<Rightarrow>
                          [Sql (Exec_sp_dnc_lookup (filter (\<lambda>c. 48 \<le> c \<and> c \<le> 57) p) t)])
                else [])"
proof (intro conjI)
  have n: "ha \<noteq> JsonNull" "hb \<noteq> JsonNull" "la \<noteq> JsonNull" "lb \<noteq> JsonNull"
    using assms(2-5) by (auto simp add: property_JsonNull)
  have fl: "\<not> falsy (property la (lit ''lookupDate''))" "\<not> falsy (property lb (lit ''lookupDate''))"
    using assms(6,7) by (simp_all add: falsy_def)
  show "dnc_history_POST en \<lparr>session = s, json_body = Some ha\<rparr> w
           = dnc_history_POST en \<lparr>session = s, json_body = Some hb\<rparr> w"
    using assms(1-3) n
    by (cases s) (simp_all add: dnc_history_POST_def rawPhone_of_simps)
  show "dnc_lookup_POST en \<lparr>session = s, json_body = Some la\<rparr> w
           = dnc_lookup_POST en \<lparr>session = s, json_body = Some lb\<rparr> w"
    using assms(1,4-7) n fl
    by (cases s; cases "length (filter (\<lambda>c. 48 \<le> c \<and> c \<le> 57) q) = 10")
       (simp_all add: dnc_lookup_POST_def rawPhone_of_simps)
  show "filter is_decision_service_call
            (trace (snd (dnc_history_POST en \<lparr>session = s, json_body = Some ha\<rparr> w)))
           = filter is_decision_service_call (trace w)
             @ (if s \<noteq> None \<and> length (filter (\<lambda>c. 48 \<le> c \<and> c \<le> 57) p) = 10
                   \<and> (\<exists>pl. fst (getPool en w) = Inr pl)
                then [Sql (Exec_sp_dnc_history (filter (\<lambda>c. 48 \<le> c \<and> c \<le> 57) p))] else [])"
    by (rule history_calls [OF assms(2)])
  have "mm @ 47 # dd @ 47 # yyyy \<noteq> []"
    by simp
  from lookup_calls [OF assms(4,6) this, of en s w]
  show "filter is_decision_service_call
            (trace (snd (dnc_lookup_POST en \<lparr>session = s, json_body = Some la\<rparr> w)))
           = filter is_decision_service_call (trace w)
             @ (if s \<noteq> None \<and> length (filter (\<lambda>c. 48 \<le> c \<and> c \<le> 57) p) = 10
                   \<and> (\<exists>pl. fst (getPool en w) = Inr pl)
                then (case date_getTime en (yyyy @ lit ''-'' @ mm @ lit ''-'' @ dd) of
                        None \<Rightarrow> []
                      | Some t \<Rightarrow>
                          [Sql (Exec_sp_dnc_lookup (filter (\<lambda>c. 48 \<le> c \<and> c \<le> 57) p) t)])
                else [])"
    by (simp only: date_string_parts [OF assms(8-10)])
qed

theorem same_digits_same_query_witness:
  "dnc_history_POST example_env (history_request (Some example_session) ''(212) 555-1234'') fresh_world
     = dnc_history_POST example_env (history_request (Some example_session) ''2125551234'') fresh_world
   \<and> dnc_history_POST example_env (history_request (Some example_session) ''212-555-1234'') fresh_world
     = dnc_history_POST example_env (history_request (Some example_session) ''2125551234'') fresh_world
   \<and> filter is_decision_service_call
        (trace (snd (dnc_history_POST example_env
                       (history_request (Some example_session) ''(212) 555-1234'') fresh_world)))
     = [Sql (Exec_sp_dnc_history (lit ''2125551234''))]
   \<and> filter is_decision_service_call
        (trace (snd (dnc_history_POST example_env
                       (history_request (Some example_session) ''800.555.0199'') fresh_world)))
     = [Sql (Exec_sp_dnc_history (lit ''8005550199''))]
   \<and> dnc_lookup_POST example_env
        (lookup_request (Some example_session) ''(212) 555-1234'' ''01/15/2024'') fresh_world
     = dnc_lookup_POST example_env
         (lookup_request (Some example_session) ''2125551234'' ''01/15/2024'') fresh_world
   \<and> filter is_decision_service_call
        (trace (snd (dnc_lookup_POST example_env
                       (lookup_request (Some example_session) ''(212) 555-1234'' ''01/15/2024'')
                       fresh_world)))
     = [Sql (Exec_sp_dnc_lookup (lit ''2125551234'') 1705276800000)]
   \<and> filter is_decision_service_call
        (trace (snd (dnc_lookup_POST example_env
                       (lookup_request (Some example_session) ''800 555 0199'' ''01/15/2024'')
                       fresh_world)))
     = [Sql (Exec_sp_dnc_lookup (lit ''8005550199'') 1705276800000)]"
proof -
  let ?D = "\<lambda>c::nat. 48 \<le> c \<and> c \<le> 57"
  let ?s = "Some example_session"
  have a: "filter ?D (lit ''(212) 555-1234'') = filter ?D (lit ''2125551234'')"
    and b: "filter ?D (lit ''212-555-1234'') = filter ?D (lit ''2125551234'')"
    and c: "filter ?D (lit ''800.555.0199'') = filter ?D (lit ''800 555 0199'')"
    and d: "filter ?D (lit ''(212) 555-1234'') = lit ''2125551234''"
      "filter ?D (lit ''800.555.0199'') = lit ''8005550199''"
      "length (lit ''2125551234'') = 10" "length (lit ''8005550199'') = 10"
    by (simp_all add: lit_def)
  have day: "lit ''01/15/2024'' = lit ''01'' @ 47 # lit ''15'' @ 47 # lit ''2024''"
    "47 \<notin> set (lit ''01'')" "47 \<notin> set (lit ''15'')" "47 \<notin> set (lit ''2024'')"
    "date_getTime example_env (lit ''2024'' @ lit ''-'' @ lit ''01'' @ lit ''-'' @ lit ''15'')
       = Some 1705276800000"
    by (simp_all add: lit_def example_env_def)
  have P: "property (JsonObject [(lit ''phoneNumber'', v)]) (lit ''phoneNumber'') = Some v"
    "property (JsonObject [(lit ''phoneNumber'', v),
        (lit ''lookupDate'', JsonString (lit ''01'' @ 47 # lit ''15'' @ 47 # lit ''2024''))])
       (lit ''phoneNumber'') = Some v"
    "property (JsonObject [(lit ''phoneNumber'', v),
        (lit ''lookupDate'', JsonString (lit ''01'' @ 47 # lit ''15'' @ 47 # lit ''2024''))])
       (lit ''lookupDate'') = Some (JsonString (lit ''01'' @ 47 # lit ''15'' @ 47 # lit ''2024''))"
    for v
    by (simp_all only: property_examples)
  note A = same_digits_same_query [OF a P(1) P(1) P(2) P(2) P(3) P(3) day(2-4),
      of example_env ?s fresh_world]
  note B = same_digits_same_query [OF b P(1) P(1) P(2) P(2) P(3) P(3) day(2-4),
      of example_env ?s fresh_world]
  note C = same_digits_same_query [OF c P(1) P(1) P(2) P(2) P(3) P(3) day(2-4),
      of example_env ?s fresh_world]
  have 1: "dnc_history_POST example_env (history_request ?s ''(212) 555-1234'') fresh_world
     = dnc_history_POST example_env (history_request ?s ''2125551234'') fresh_world"
    using A [THEN conjunct1] by (simp add: history_request_def)
  have 2: "dnc_history_POST example_env (history_request ?s ''212-555-1234'') fresh_world
     = dnc_history_POST example_env (history_request ?s ''2125551234'') fresh_world"
    using B [THEN conjunct1] by (simp add: history_request_def)
  have 3: "filter is_decision_service_call
        (trace (snd (dnc_history_POST example_env
                       (history_request ?s ''(212) 555-1234'') fresh_world)))
     = [Sql (Exec_sp_dnc_history (lit ''2125551234''))]"
    using A [THEN conjunct2, THEN conjunct2, THEN conjunct1]
    by (simp add: history_request_def d trace_fresh_world getPool_example)
  have 4: "filter is_decision_service_call
        (trace (snd (dnc_history_POST example_env
                       (history_request ?s ''800.555.0199'') fresh_world)))
     = [Sql (Exec_sp_dnc_history (lit ''8005550199''))]"
    using C [THEN conjunct2, THEN conjunct2, THEN conjunct1]
    by (simp add: history_request_def d trace_fresh_world getPool_example)
  have 5: "dnc_lookup_POST example_env (lookup_request ?s ''(212) 555-1234'' ''01/15/2024'') fresh_world
     = dnc_lookup_POST example_env (lookup_request ?s ''2125551234'' ''01/15/2024'') fresh_world"
    using A [THEN conjunct2, THEN conjunct1] by (simp add: lookup_request_def day(1))
  have 6: "filter is_decision_service_call
        (trace (snd (dnc_lookup_POST example_env
                       (lookup_request ?s ''(212) 555-1234'' ''01/15/2024'') fresh_world)))
     = [Sql (Exec_sp_dnc_lookup (lit ''2125551234'') 1705276800000)]"
    using A [THEN conjunct2, THEN conjunct2, THEN conjunct2]
    by (simp add: lookup_request_def day(1,5) d trace_fresh_world getPool_example)
  have 7: "filter is_decision_service_call
        (trace (snd (dnc_lookup_POST example_env
                       (lookup_request ?s ''800 555 0199'' ''01/15/2024'') fresh_world)))
     = [Sql (Exec_sp_dnc_lookup (lit ''8005550199'') 1705276800000)]"
    using C [THEN conjunct2, THEN conjunct1]
      C [THEN conjunct2, THEN conjunct2, THEN conjunct2]
    by (simp add: lookup_request_def day(1,5) d trace_fresh_world getPool_example)
  from 1 2 3 4 5 6 7 show ?thesis
    by (intro conjI)
qed

subsection \<open>Forgot password\<close>

lemma forgot_password_valid:
  assumes "json_body req = Some body" and "forgot_email body = Some e"
    and "toLowerCase en (trim e) \<noteq> []"
    and "\<not> malformed_email (toLowerCase en (trim e))"
  shows "fst (forgot_password_POST en req w) = Inr reset_message"
  using assms
  by (auto simp add: forgot_password_POST_def io_defs Let_def unset_def
      split: prod.splits sum.splits list.splits)

text \<open>
  Claim C8. Two forgot-password requests whose email, trimmed and lower-cased, is not
  empty and contains \<open>@\<close> and \<open>.\<close> get the same answer, the fixed confirmation message
  with status 200, in any two installations and states: whether the account exists,
  whether it is active, whether the pool can be obtained and whether the \<open>SELECT\<close> throws
  make no difference to the response.
\<close>

theorem forgot_password_same_answer:
  assumes "json_body req = Some body" and "forgot_email body = Some e"
    and "toLowerCase en (trim e) \<noteq> []"
    and "\<not> malformed_email (toLowerCase en (trim e))"
    and "json_body req' = Some body'" and "forgot_email body' = Some e'"
    and "toLowerCase en' (trim e') \<noteq> []"
    and "\<not> malformed_email (toLowerCase en' (trim e'))"
  shows "fst (forgot_password_POST en req w) = fst (forgot_password_POST en' req' w')
       \<and> fst (forgot_password_POST en req w) = Inr reset_message
       \<and> status reset_message = 200 \<and> success reset_message \<and> error reset_message = None"
  using forgot_password_valid [OF assms(1-4), of w] forgot_password_valid [OF assms(5-8), of w']
  by (simp add: reset_message_def)

lemma ascii_lower_simps:
  "ascii_lower [] = []"
  "ascii_lower (c # cs) = (if 65 \<le> c \<and> c \<le> 90 then c + 32 else c) # ascii_lower cs"
  by (simp_all add: ascii_lower_def)

lemma toLowerCase_example: "toLowerCase example_env = ascii_lower"
  and toLowerCase_bare: "toLowerCase bare_env = ascii_lower"
  by (simp_all add: example_env_def bare_env_def)

theorem forgot_password_same_answer_witness:
  "fst (forgot_password_POST example_env (forgot_request ''Alice@X.com'') fresh_world)
     = fst (forgot_password_POST bare_env (forgot_request ''nobody@x.com'') fresh_world)
   \<and> fst (forgot_password_POST example_env (forgot_request ''Alice@X.com'') fresh_world)
     = Inr reset_message
   \<and> select_active_account example_env (lit ''alice@x.com'')
     = Inr [\<lparr>user_id = 1, username = lit ''alice'', email = lit ''alice@x.com''\<rparr>]
   \<and> fst (getPool bare_env fresh_world) = Inl (missing_config_error bare_env)"
proof -
  have a: "toLowerCase example_env (trim (lit ''Alice@X.com'')) = lit ''alice@x.com''"
    and b: "toLowerCase bare_env (trim (lit ''nobody@x.com'')) = lit ''nobody@x.com''"
    by (simp_all add: toLowerCase_example toLowerCase_bare trim_def lit_def is_space_def
        ascii_lower_simps)
  have v: "\<not> malformed_email (lit ''alice@x.com'')" "\<not> malformed_email (lit ''nobody@x.com'')"
    "lit ''alice@x.com'' \<noteq> []" "lit ''nobody@x.com'' \<noteq> []"
    by (simp_all add: malformed_email_def lit_def starts_with_def)
  have 1: "json_body (forgot_request ''Alice@X.com'') = Some \<lparr>forgot_email = Some (lit ''Alice@X.com'')\<rparr>"
    and 2: "forgot_email \<lparr>forgot_email = Some (lit ''Alice@X.com'')\<rparr> = Some (lit ''Alice@X.com'')"
    and 3: "json_body (forgot_request ''nobody@x.com'') = Some \<lparr>forgot_email = Some (lit ''nobody@x.com'')\<rparr>"
    and 4: "forgot_email \<lparr>forgot_email = Some (lit ''nobody@x.com'')\<rparr> = Some (lit ''nobody@x.com'')"
    by (simp_all add: forgot_request_def)
  have s: "select_active_account example_env (lit ''alice@x.com'')
     = Inr [\<lparr>user_id = 1, username = lit ''alice'', email = lit ''alice@x.com''\<rparr>]"
    by (simp add: example_env_def example_users_def lit_def)
  have "unset (process_env bare_env (lit ''DB_SERVER''))"
    and "process_env bare_env (lit ''NODE_ENV'') = None"
    by (simp_all add: bare_env_def unset_def)
  then have g: "fst (getPool bare_env fresh_world) = Inl (missing_config_error bare_env)"
    by (simp add: getPool_def connect_def buildConfig_def io_defs usable_def fresh_world_def
        Let_def)
  from forgot_password_same_answer [OF 1 2 _ _ 3 4, of example_env bare_env fresh_world fresh_world]
    a b v s g
  show ?thesis
    by auto
qed

subsection \<open>Registration of a name or address that is taken\<close>

text \<open>
  Claim C7, as stated, fails at two registration attempts for a user name the store
  already holds: with a password of five characters the answer is the 400 of the
  validation, and in an installation without database configuration it is a 500. In
  both runs the \<open>INSERT\<close> is never sent.
\<close>

theorem existing_username_counterexample:
  "insert_user example_env (lit ''alice'') (lit ''new@x.com'') (lit ''$2a$12$short'')
     = Inl duplicate_key_error
   \<and> fst (register_POST example_env (register_request ''alice'' ''new@x.com'' ''short'') fresh_world)
     = Inr (failure 400 (lit ''Password must be at least 8 characters''))
   \<and> insert_user bare_env (lit ''alice'') (lit ''new@x.com'') (lit ''$2a$12$password123'')
     = Inl duplicate_key_error
   \<and> fst (register_POST bare_env (register_request ''alice'' ''new@x.com'' ''password123'') fresh_world)
     = Inr (failure 500 (lit ''Registration failed. Please try again.''))"
proof -
  have i: "insert_user example_env (lit ''alice'') (lit ''new@x.com'') (lit ''$2a$12$short'')
     = Inl duplicate_key_error"
    "insert_user bare_env (lit ''alice'') (lit ''new@x.com'') (lit ''$2a$12$password123'')
     = Inl duplicate_key_error"
    by (simp_all add: example_env_def bare_env_def example_users_def)
  have t: "trim (lit ''alice'') = lit ''alice''" "trim (lit ''new@x.com'') = lit ''new@x.com''"
    "ascii_lower (lit ''new@x.com'') = lit ''new@x.com''"
    by (simp_all add: trim_def lit_def is_space_def ascii_lower_simps)
  have v: "\<not> malformed_email (lit ''new@x.com'')" "length (lit ''alice'') = 5"
    "length (lit ''short'') = 5" "length (lit ''password123'') = 11"
    "lit ''alice'' \<noteq> []" "lit ''new@x.com'' \<noteq> []" "lit ''short'' \<noteq> []"
    "lit ''password123'' \<noteq> []"
    by (simp_all add: malformed_email_def lit_def starts_with_def)
  have n: "show_nat 8 = lit ''8''"
    by (simp add: lit_def)
  have a: "fst (register_POST example_env (register_request ''alice'' ''new@x.com'' ''short'') fresh_world)
     = Inr (failure 400 (lit ''Password must be at least 8 characters''))"
    using t v n
    by (simp add: register_POST_def register_request_def io_defs Let_def unset_def
        toLowerCase_example MIN_USERNAME_LENGTH_def MAX_USERNAME_LENGTH_def
        MIN_PASSWORD_LENGTH_def lit_def del: show_nat.simps)
  have "unset (process_env bare_env (lit ''DB_SERVER''))"
    and "process_env bare_env (lit ''NODE_ENV'') = None"
    and "bcrypt_hash bare_env = (\<lambda>password cost. Inr (lit ''$2a$12$'' @ password))"
    by (simp_all add: bare_env_def unset_def example_env_def)
  then have b: "fst (register_POST bare_env (register_request ''alice'' ''new@x.com'' ''password123'') fresh_world)
     = Inr (failure 500 (lit ''Registration failed. Please try again.''))"
    using t v
    by (simp add: register_POST_def register_request_def io_defs Let_def unset_def
        toLowerCase_bare MIN_USERNAME_LENGTH_def MAX_USERNAME_LENGTH_def
        MIN_PASSWORD_LENGTH_def getPool_def connect_def buildConfig_def usable_def
        fresh_world_def unique_violation_def missing_config_error_def new_Error_def)
  from i a b show ?thesis
    by (intro conjI)
qed


text \<open>
  Claim C7, amended. When a registration attempt passes the validation of its fields,
  the password is hashed, the pool is obtained and the \<open>INSERT\<close> is rejected with SQL
  Server error number 2627 or 2601, the answer is 409 with the one message
  \<open>Username or email already exists\<close>: the same response for both numbers and for
  either field, and not a 500.
\<close>

theorem unique_violation_is_conflict:
  assumes "json_body req = Some body"
    and "body_username body = Some name" and "body_email body = Some e"
    and "body_password body = Some password"
    and "name \<noteq> []" and "e \<noteq> []"
    and "MIN_USERNAME_LENGTH \<le> length (trim name)"
    and "length (trim name) \<le> MAX_USERNAME_LENGTH"
    and "\<not> malformed_email (toLowerCase en (trim e))"
    and "MIN_PASSWORD_LENGTH \<le> length password"
    and "bcrypt_hash en password 12 = Inr h"
    and "fst (getPool en w) = Inr pl"
    and "insert_user en (trim name) (toLowerCase en (trim e)) h = Inl err"
    and "number err = Some 2627 \<or> number err = Some 2601"
  shows "fst (register_POST en req w) = Inr conflict
       \<and> status conflict = 409 \<and> \<not> success conflict \<and> data conflict = None
       \<and> error conflict = Some (lit ''Username or email already exists'')"
proof -
  let ?w1 = "w\<lparr>clock := Suc (clock w), trace := trace w @ [BcryptHash password 12]\<rparr>"
  obtain r w2 where g: "getPool en ?w1 = (r, w2)"
    by (cases "getPool en ?w1")
  have "fst (getPool en w) = r"
    using getPool_frame [of ?w1 w en] g by simp
  with assms(12) have r: "r = Inr pl"
    by simp
  have p: "password \<noteq> []"
    using assms(10) by (auto simp add: MIN_PASSWORD_LENGTH_def)
  have "fst (register_POST en req w) = Inr conflict"
    using assms(1-11,13,14) g r p
    by (simp add: register_POST_def io_defs Let_def unset_def unique_violation_def)
  then show ?thesis
    by (simp add: conflict_def failure_def)
qed

theorem unique_violation_is_conflict_witness:
  "fst (register_POST example_env (register_request ''alice'' ''new@x.com'' ''password123'') fresh_world)
     = Inr conflict
   \<and> fst (register_POST example_env (register_request ''carol'' ''bob@x.com'' ''password123'') fresh_world)
     = Inr conflict
   \<and> status conflict = 409"
proof -
  have t: "trim (lit ''alice'') = lit ''alice''" "trim (lit ''new@x.com'') = lit ''new@x.com''"
    "trim (lit ''carol'') = lit ''carol''" "trim (lit ''bob@x.com'') = lit ''bob@x.com''"
    "ascii_lower (lit ''new@x.com'') = lit ''new@x.com''"
    "ascii_lower (lit ''bob@x.com'') = lit ''bob@x.com''"
    by (simp_all add: trim_def lit_def is_space_def ascii_lower_simps)
  have v: "\<not> malformed_email (lit ''new@x.com'')" "\<not> malformed_email (lit ''bob@x.com'')"
    "length (lit ''alice'') = 5" "length (lit ''carol'') = 5" "length (lit ''password123'') = 11"
    "lit ''alice'' \<noteq> []" "lit ''carol'' \<noteq> []" "lit ''new@x.com'' \<noteq> []" "lit ''bob@x.com'' \<noteq> []"
    by (simp_all add: malformed_email_def lit_def starts_with_def)
  have h: "bcrypt_hash example_env (lit ''password123'') 12 = Inr (lit ''$2a$12$'' @ lit ''password123'')"
    by (simp add: example_env_def)
  have i: "insert_user example_env (lit ''alice'') (lit ''new@x.com'') (lit ''$2a$12$'' @ lit ''password123'')
             = Inl duplicate_key_error"
    "insert_user example_env (lit ''carol'') (lit ''bob@x.com'') (lit ''$2a$12$'' @ lit ''password123'')
             = Inl duplicate_key_error"
    by (simp_all add: example_env_def example_users_def lit_def)
  have n: "number duplicate_key_error = Some 2627 \<or> number duplicate_key_error = Some 2601"
    by (simp add: duplicate_key_error_def)
  have a: "fst (register_POST example_env (register_request ''alice'' ''new@x.com'' ''password123'') fresh_world)
     = Inr conflict \<and> status conflict = 409"
    using unique_violation_is_conflict [where req = "register_request ''alice'' ''new@x.com'' ''password123''"
        and name = "lit ''alice''" and e = "lit ''new@x.com''" and password = "lit ''password123''"
        and body = "\<lparr>body_username = Some (lit ''alice''), body_email = Some (lit ''new@x.com''),
                     body_password = Some (lit ''password123'')\<rparr>"
        and en = example_env and w = fresh_world and err = duplicate_key_error
        and h = "lit ''$2a$12$'' @ lit ''password123''" and pl = "\<lparr>connected = True\<rparr>"]
      t v h i n getPool_example
    by (simp add: register_request_def toLowerCase_example MIN_USERNAME_LENGTH_def
        MAX_USERNAME_LENGTH_def MIN_PASSWORD_LENGTH_def)
  have b: "fst (register_POST example_env (register_request ''carol'' ''bob@x.com'' ''password123'') fresh_world)
     = Inr conflict"
    using unique_violation_is_conflict [where req = "register_request ''carol'' ''bob@x.com'' ''password123''"
        and name = "lit ''carol''" and e = "lit ''bob@x.com''" and password = "lit ''password123''"
        and body = "\<lparr>body_username = Some (lit ''carol''), body_email = Some (lit ''bob@x.com''),
                     body_password = Some (lit ''password123'')\<rparr>"
        and en = example_env and w = fresh_world and err = duplicate_key_error
        and h = "lit ''$2a$12$'' @ lit ''password123''" and pl = "\<lparr>connected = True\<rparr>"]
      t v h i n getPool_example
    by (simp add: register_request_def toLowerCase_example MIN_USERNAME_LENGTH_def
        MAX_USERNAME_LENGTH_def MIN_PASSWORD_LENGTH_def)
  from a b show ?thesis
    by simp
qed

subsection \<open>Missing database configuration\<close>

lemma getPool_missing_config:
  assumes "unset (process_env en (lit ''DB_SERVER'')) \<or> unset (process_env en (lit ''DB_DATABASE''))
           \<or> unset (process_env en (lit ''DB_USER'')) \<or> unset (process_env en (lit ''DB_PASSWORD''))"
    and "\<not> usable (prodPool w)" and "\<not> usable (mssqlPool w)"
  shows "\<exists>m. getPool en w =
           (Inl (missing_config_error en),
            w\<lparr>trace := trace w @ [Log \<lparr>level = lit ''info'', msg = JStr m, meta = []\<rparr>]\<rparr>)"
  using assms
  by (auto simp add: getPool_def connect_def buildConfig_def io_defs Let_def)

text \<open>
  Claim C9, as stated, fails in an installation without any environment variable:
  loading \<open>lib/db.ts\<close> succeeds, and the missing configuration shows when a request
  needs the pool, here as the 500 of a history request.
\<close>

theorem missing_config_counterexample:
  "unset (process_env bare_env (lit ''DB_SERVER''))
   \<and> db_module_load bare_env = Inr fresh_world
   \<and> fst (dnc_history_POST bare_env (history_request (Some example_session) ''2125551234'') fresh_world)
       = Inr (failure 500 (lit ''History lookup failed. Please try again.''))"
proof -
  have u: "unset (process_env bare_env (lit ''DB_SERVER''))"
    and n: "process_env bare_env (lit ''NODE_ENV'') = None"
    by (simp_all add: bare_env_def unset_def)
  have d: "length (strip_non_digits (lit ''2125551234'')) = 10"
    by (simp add: strip_non_digits_def lit_def is_digit_def)
  have "fst (dnc_history_POST bare_env (history_request (Some example_session) ''2125551234'') fresh_world)
       = Inr (failure 500 (lit ''History lookup failed. Please try again.''))"
    using u n d
    by (simp add: dnc_history_POST_def history_request_def io_defs Let_def getPool_def
        connect_def buildConfig_def usable_def fresh_world_def property_examples rawPhone_of_def)
  with u show ?thesis
    by (simp add: db_module_load_def)
qed

text \<open>
  Claim C9, amended. When one of \<open>DB_SERVER\<close>, \<open>DB_DATABASE\<close>, \<open>DB_USER\<close>, \<open>DB_PASSWORD\<close>
  is unset or empty, loading the module still succeeds; while no connected pool is held,
  \<open>buildConfig\<close> throws inside every \<open>getPool\<close>, before any connection is attempted,
  and the request that asked for the pool fails by itself: a history request with a
  session and a ten-digit phone number gets 500, and \<open>authorize\<close> returns \<open>null\<close>.
\<close>

theorem missing_config_fails_requests:
  assumes "unset (process_env en (lit ''DB_SERVER'')) \<or> unset (process_env en (lit ''DB_DATABASE''))
           \<or> unset (process_env en (lit ''DB_USER'')) \<or> unset (process_env en (lit ''DB_PASSWORD''))"
    and "\<not> usable (prodPool w)" and "\<not> usable (mssqlPool w)"
    and "session h = Some s" and "json_body h = Some hb"
    and "property hb (lit ''phoneNumber'') = Some (JsonString p)"
    and "length (strip_non_digits p) = 10"
    and "cred_username c \<noteq> []" and "cred_password c \<noteq> []"
  shows "db_module_load en = Inr fresh_world
       \<and> fst (getPool en w) = Inl (missing_config_error en)
       \<and> filter is_db_event (trace (snd (getPool en w))) = filter is_db_event (trace w)
       \<and> fst (dnc_history_POST en h w) = Inr (failure 500 (lit ''History lookup failed. Please try again.''))
       \<and> filter is_db_event (trace (snd (dnc_history_POST en h w))) = filter is_db_event (trace w)
       \<and> fst (authorize en (Some c) w) = Inr None
       \<and> filter is_db_event (trace (snd (authorize en (Some c) w))) = filter is_db_event (trace w)"
proof -
  have g: "\<exists>m. getPool en v =
           (Inl (missing_config_error en),
            v\<lparr>trace := trace v @ [Log \<lparr>level = lit ''info'', msg = JStr m, meta = []\<rparr>]\<rparr>)"
    if "prodPool v = prodPool w" and "mssqlPool v = mssqlPool w" for v
    using getPool_missing_config [of en v] assms(1-3) that by simp
  from g [of w] have 1: "fst (getPool en w) = Inl (missing_config_error en)"
    and 2: "filter is_db_event (trace (snd (getPool en w))) = filter is_db_event (trace w)"
    by auto
  let ?w1 = "w\<lparr>clock := Suc (clock w),
      trace := trace w @ [Log \<lparr>level = lit ''info'',
         msg = JStr (lit ''POST /api/dnc-history '' @ mdash @ lit '' phone: ''
                      @ lit ''***-***-'' @ slice_last4 (strip_non_digits p)), meta = []\<rparr>]\<rparr>"
  from g [of ?w1] obtain m where gh: "getPool en ?w1 =
           (Inl (missing_config_error en),
            ?w1\<lparr>trace := trace ?w1 @ [Log \<lparr>level = lit ''info'', msg = JStr m, meta = []\<rparr>]\<rparr>)"
    by auto
  have "hb \<noteq> JsonNull"
    using assms(6) by (auto simp add: property_JsonNull)
  then have 3: "fst (dnc_history_POST en h w) = Inr (failure 500 (lit ''History lookup failed. Please try again.''))"
    and 4: "filter is_db_event (trace (snd (dnc_history_POST en h w))) = filter is_db_event (trace w)"
    using assms(4-7) gh
    by (simp_all add: dnc_history_POST_def io_defs Let_def rawPhone_of_def)
  from g [of w] obtain m' where ga: "getPool en w =
           (Inl (missing_config_error en),
            w\<lparr>trace := trace w @ [Log \<lparr>level = lit ''info'', msg = JStr m', meta = []\<rparr>]\<rparr>)"
    by auto
  have 5: "fst (authorize en (Some c) w) = Inr None"
    and 6: "filter is_db_event (trace (snd (authorize en (Some c) w))) = filter is_db_event (trace w)"
    using assms(8,9) ga
    by (simp_all add: authorize_def io_defs)
  from 1 2 3 4 5 6 show ?thesis
    by (simp add: db_module_load_def)
qed


theorem missing_config_fails_requests_witness:
  "db_module_load bare_env = Inr fresh_world
   \<and> fst (getPool bare_env fresh_world) = Inl (missing_config_error bare_env)
   \<and> fst (dnc_history_POST bare_env (history_request (Some example_session) ''(212) 555-1234'')
            fresh_world)
       = Inr (failure 500 (lit ''History lookup failed. Please try again.''))
   \<and> filter is_db_event
        (trace (snd (dnc_history_POST bare_env
                       (history_request (Some example_session) ''(212) 555-1234'') fresh_world)))
       = []
   \<and> fst (authorize bare_env
            (Some \<lparr>cred_username = lit ''alice'', cred_password = lit ''password123''\<rparr>) fresh_world)
       = Inr None"
proof -
  have u: "unset (process_env bare_env (lit ''DB_SERVER''))
           \<or> unset (process_env bare_env (lit ''DB_DATABASE''))
           \<or> unset (process_env bare_env (lit ''DB_USER''))
           \<or> unset (process_env bare_env (lit ''DB_PASSWORD''))"
    by (simp add: bare_env_def unset_def)
  have p: "\<not> usable (prodPool fresh_world)" "\<not> usable (mssqlPool fresh_world)"
    by (simp_all add: fresh_world_def usable_def)
  have h: "session (history_request (Some example_session) ''(212) 555-1234'') = Some example_session"
    "json_body (history_request (Some example_session) ''(212) 555-1234'')
       = Some (JsonObject [(lit ''phoneNumber'', JsonString (lit ''(212) 555-1234''))])"
    "property (JsonObject [(lit ''phoneNumber'', JsonString (lit ''(212) 555-1234''))])
       (lit ''phoneNumber'') = Some (JsonString (lit ''(212) 555-1234''))"
    by (simp_all add: example_requests property_examples)
  have d: "length (strip_non_digits (lit ''(212) 555-1234'')) = 10"
    by (simp add: strip_non_digits_def lit_def is_digit_def)
  have c: "cred_username \<lparr>cred_username = lit ''alice'', cred_password = lit ''password123''\<rparr> \<noteq> []"
    "cred_password \<lparr>cred_username = lit ''alice'', cred_password = lit ''password123''\<rparr> \<noteq> []"
    by (simp_all add: lit_def)
  have t: "trace fresh_world = []"
    by (simp add: fresh_world_def)
  from missing_config_fails_requests [OF u p h d c] t
  show ?thesis
    by simp
qed

subsection \<open>Failed logins\<close>

lemma authorize_after_pool:
  assumes "cred_username c \<noteq> []" and "cred_password c \<noteq> []"
    and "getPool en w = (Inr pl, w')"
  shows "select_user en (trim (cred_username c)) = Inr [] \<Longrightarrow>
           authorize en (Some c) w =
             (Inr None,
              w'\<lparr>trace := trace w' @
                 [Sql (SelectUserByUsername (trim (cred_username c))),
                  Log \<lparr>level = lit ''warn'',
                       msg = JStr (login_failed ''user not found'' (cred_username c)), meta = []\<rparr>]\<rparr>)"
    and "select_user en (trim (cred_username c)) = Inr (u # us) \<Longrightarrow> \<not> is_active u \<Longrightarrow>
           authorize en (Some c) w =
             (Inr None,
              w'\<lparr>trace := trace w' @
                 [Sql (SelectUserByUsername (trim (cred_username c))),
                  Log \<lparr>level = lit ''warn'',
                       msg = JStr (login_failed ''account inactive'' (cred_username c)), meta = []\<rparr>]\<rparr>)"
    and "select_user en (trim (cred_username c)) = Inr (u # us) \<Longrightarrow> is_active u \<Longrightarrow>
         bcrypt_compare en (cred_password c) (password_hash u) = Inr False \<Longrightarrow>
           authorize en (Some c) w =
             (Inr None,
              w'\<lparr>trace := trace w' @
                 [Sql (SelectUserByUsername (trim (cred_username c))),
                  BcryptCompare (cred_password c) (password_hash u),
                  Log \<lparr>level = lit ''warn'',
                       msg = JStr (login_failed ''wrong password'' (cred_username c)), meta = []\<rparr>]\<rparr>)"
  using assms
  by (simp_all add: authorize_def io_defs)

lemma authorize_failure:
  assumes "select_user en (trim (cred_username c)) = Inr []
         \<or> (\<exists>u us. select_user en (trim (cred_username c)) = Inr (u # us)
               \<and> (\<not> is_active u \<or> bcrypt_compare en (cred_password c) (password_hash u) = Inr False))"
  shows "fst (authorize en (Some c) w) = Inr None"
  using assms
  by (auto simp add: authorize_def io_defs split: prod.splits sum.splits list.splits)

lemma dropWhile_rev_dropWhile_hd:
  "dropWhile P (rev (dropWhile P (rev (dropWhile P s)))) = rev (dropWhile P (rev (dropWhile P s)))"
proof -
  let ?d = "dropWhile P s"
  let ?e = "dropWhile P (rev ?d)"
  show ?thesis
  proof (cases "?e = []")
    case True
    show ?thesis
      by (simp only: True rev.simps dropWhile.simps)
  next
    case False
    have d: "?d \<noteq> []"
    proof
      assume "?d = []"
      then have "?e = []"
        by (simp only: rev.simps dropWhile.simps)
      with False show False
        by simp
    qed
    then have nh: "\<not> P (hd ?d)"
      by (rule hd_dropWhile)
    obtain ps where ps: "rev ?d = ps @ ?e"
      by (metis takeWhile_dropWhile_id)
    have "last ?e = last (rev ?d)"
      using ps False by (metis last_appendR)
    also have "\<dots> = hd ?d"
      using d by (simp add: last_rev)
    finally have "hd (rev ?e) = hd ?d"
      using False by (simp add: hd_rev)
    with nh have "\<not> P (hd (rev ?e))"
      by simp
    moreover have "rev ?e \<noteq> []"
      using False by simp
    ultimately show ?thesis
      by (cases "rev ?e") simp_all
  qed
qed

lemma trim_idem: "trim (trim s) = trim s"
  by (simp add: trim_def dropWhile_rev_dropWhile_hd)

lemma handleSubmit_submitted:
  assumes "trim n \<noteq> []" and "p \<noteq> []"
  shows "handleSubmit en n p w =
           (case authorize en (Some \<lparr>cred_username = trim n, cred_password = p\<rparr>) w of
              (Inl e, w') \<Rightarrow> (Inl e, w')
            | (Inr r, w') \<Rightarrow> (Inr (signin_view (credentials_signin en r)), w'))"
  using assms
  by (simp add: handleSubmit_def signIn_def io_defs split: prod.splits sum.splits)

lemma login_failed_distinct:
  "login_failed ''wrong password'' x \<noteq> login_failed ''user not found'' y"
  "login_failed ''wrong password'' x \<noteq> login_failed ''account inactive'' y"
  "login_failed ''user not found'' x \<noteq> login_failed ''account inactive'' y"
  by (simp_all add: login_failed_def lit_def)

text \<open>
  Claim C3. Three login attempts are submitted from the login page: one with the name
  of an active account and a password bcrypt rejects, one with a name no row has, one
  with the name of an inactive account. For each, \<open>authorize\<close> returns \<open>null\<close>, so the
  answer NextAuth gives to \<open>signIn\<close> (status included) is the one it gives for \<open>null\<close>,
  the same value in the three cases, and the page shows the same thing. The reason is
  in the log only: when the pool was obtained, the last log line of the attempt is
  \<open>wrong password\<close>, \<open>user not found\<close> or \<open>account inactive\<close>, three different texts.
\<close>

theorem login_failures_indistinguishable:
  assumes "trim na \<noteq> []" and "pa \<noteq> []"
    and "trim nb \<noteq> []" and "pb \<noteq> []"
    and "trim nc \<noteq> []" and "pc \<noteq> []"
    and "select_user en (trim na) = Inr (u # us)" and "is_active u"
    and "bcrypt_compare en pa (password_hash u) = Inr False"
    and "select_user en (trim nb) = Inr []"
    and "select_user en (trim nc) = Inr (v # vs)" and "\<not> is_active v"
  shows "fst (signIn en \<lparr>cred_username = trim na, cred_password = pa\<rparr> wa)
           = Inr (credentials_signin en None)
       \<and> fst (signIn en \<lparr>cred_username = trim nb, cred_password = pb\<rparr> wb)
           = Inr (credentials_signin en None)
       \<and> fst (signIn en \<lparr>cred_username = trim nc, cred_password = pc\<rparr> wc)
           = Inr (credentials_signin en None)
       \<and> fst (handleSubmit en na pa wa) = Inr (signin_view (credentials_signin en None))
       \<and> fst (handleSubmit en nb pb wb) = Inr (signin_view (credentials_signin en None))
       \<and> fst (handleSubmit en nc pc wc) = Inr (signin_view (credentials_signin en None))
       \<and> ((\<exists>pl. fst (getPool en wa) = Inr pl) \<longrightarrow>
            last (trace (snd (handleSubmit en na pa wa)))
              = Log \<lparr>level = lit ''warn'', msg = JStr (login_failed ''wrong password'' (trim na)),
                     meta = []\<rparr>)
       \<and> ((\<exists>pl. fst (getPool en wb) = Inr pl) \<longrightarrow>
            last (trace (snd (handleSubmit en nb pb wb)))
              = Log \<lparr>level = lit ''warn'', msg = JStr (login_failed ''user not found'' (trim nb)),
                     meta = []\<rparr>)
       \<and> ((\<exists>pl. fst (getPool en wc) = Inr pl) \<longrightarrow>
            last (trace (snd (handleSubmit en nc pc wc)))
              = Log \<lparr>level = lit ''warn'', msg = JStr (login_failed ''account inactive'' (trim nc)),
                     meta = []\<rparr>)
       \<and> login_failed ''wrong password'' (trim na) \<noteq> login_failed ''user not found'' (trim nb)
       \<and> login_failed ''wrong password'' (trim na) \<noteq> login_failed ''account inactive'' (trim nc)
       \<and> login_failed ''user not found'' (trim nb) \<noteq> login_failed ''account inactive'' (trim nc)"
proof -
  let ?a = "\<lparr>cred_username = trim na, cred_password = pa\<rparr>"
  let ?b = "\<lparr>cred_username = trim nb, cred_password = pb\<rparr>"
  let ?c = "\<lparr>cred_username = trim nc, cred_password = pc\<rparr>"
  have fa: "fst (authorize en (Some ?a) wa) = Inr None"
    using assms(7-9) by (intro authorize_failure) (simp add: trim_idem)
  have fb: "fst (authorize en (Some ?b) wb) = Inr None"
    using assms(10) by (intro authorize_failure) (simp add: trim_idem)
  have fc: "fst (authorize en (Some ?c) wc) = Inr None"
    using assms(11,12) by (intro authorize_failure) (simp add: trim_idem)
  have s: "fst (signIn en ?a wa) = Inr (credentials_signin en None)"
    "fst (signIn en ?b wb) = Inr (credentials_signin en None)"
    "fst (signIn en ?c wc) = Inr (credentials_signin en None)"
    using fa fb fc
    by (auto simp add: signIn_def io_defs split: prod.splits sum.splits)
  have h: "fst (handleSubmit en na pa wa) = Inr (signin_view (credentials_signin en None))"
    "fst (handleSubmit en nb pb wb) = Inr (signin_view (credentials_signin en None))"
    "fst (handleSubmit en nc pc wc) = Inr (signin_view (credentials_signin en None))"
    using fa fb fc assms(1-6)
    by (auto simp add: handleSubmit_submitted split: prod.splits sum.splits)
  have la: "last (trace (snd (handleSubmit en na pa wa)))
              = Log \<lparr>level = lit ''warn'', msg = JStr (login_failed ''wrong password'' (trim na)),
                     meta = []\<rparr>" if gp: "fst (getPool en wa) = Inr pl" for pl
  proof -
    obtain w' where "getPool en wa = (Inr pl, w')"
      using gp by (cases "getPool en wa") auto
    from authorize_after_pool(3) [of ?a en wa pl w' u us] this assms(1,2,7-9)
    show ?thesis
      by (simp add: handleSubmit_submitted trim_idem)
  qed
  have lb: "last (trace (snd (handleSubmit en nb pb wb)))
              = Log \<lparr>level = lit ''warn'', msg = JStr (login_failed ''user not found'' (trim nb)),
                     meta = []\<rparr>" if gp: "fst (getPool en wb) = Inr pl" for pl
  proof -
    obtain w' where "getPool en wb = (Inr pl, w')"
      using gp by (cases "getPool en wb") auto
    from authorize_after_pool(1) [of ?b en wb pl w'] this assms(3,4,10)
    show ?thesis
      by (simp add: handleSubmit_submitted trim_idem)
  qed
  have lc: "last (trace (snd (handleSubmit en nc pc wc)))
              = Log \<lparr>level = lit ''warn'', msg = JStr (login_failed ''account inactive'' (trim nc)),
                     meta = []\<rparr>" if gp: "fst (getPool en wc) = Inr pl" for pl
  proof -
    obtain w' where "getPool en wc = (Inr pl, w')"
      using gp by (cases "getPool en wc") auto
    from authorize_after_pool(2) [of ?c en wc pl w' v vs] this assms(5,6,11,12)
    show ?thesis
      by (simp add: handleSubmit_submitted trim_idem)
  qed
  from s h la lb lc login_failed_distinct show ?thesis
    by blast
qed


theorem login_failures_indistinguishable_witness:
  "fst (handleSubmit example_env (lit ''alice'') (lit ''wrongpass'') fresh_world)
     = Inr (ShowError (lit ''Invalid username or password. Please try again.''))
   \<and> fst (handleSubmit example_env (lit ''nobody'') (lit ''wrongpass'') fresh_world)
     = Inr (ShowError (lit ''Invalid username or password. Please try again.''))
   \<and> fst (handleSubmit example_env (lit ''bob'') (lit ''hunter2hunter2'') fresh_world)
     = Inr (ShowError (lit ''Invalid username or password. Please try again.''))
   \<and> fst (signIn example_env \<lparr>cred_username = lit ''alice'', cred_password = lit ''wrongpass''\<rparr>
            fresh_world)
     = fst (signIn example_env \<lparr>cred_username = lit ''nobody'', cred_password = lit ''wrongpass''\<rparr>
              fresh_world)
   \<and> last (trace (snd (handleSubmit example_env (lit ''alice'') (lit ''wrongpass'') fresh_world)))
     = Log \<lparr>level = lit ''warn'', msg = JStr (login_failed ''wrong password'' (lit ''alice'')),
            meta = []\<rparr>
   \<and> last (trace (snd (handleSubmit example_env (lit ''nobody'') (lit ''wrongpass'') fresh_world)))
     = Log \<lparr>level = lit ''warn'', msg = JStr (login_failed ''user not found'' (lit ''nobody'')),
            meta = []\<rparr>
   \<and> last (trace (snd (handleSubmit example_env (lit ''bob'') (lit ''hunter2hunter2'') fresh_world)))
     = Log \<lparr>level = lit ''warn'', msg = JStr (login_failed ''account inactive'' (lit ''bob'')),
            meta = []\<rparr>"
proof -
  have t: "trim (lit ''alice'') = lit ''alice''" "trim (lit ''nobody'') = lit ''nobody''"
    "trim (lit ''bob'') = lit ''bob''"
    by (simp_all add: trim_def lit_def is_space_def)
  have n: "lit ''alice'' \<noteq> []" "lit ''nobody'' \<noteq> []" "lit ''bob'' \<noteq> []"
    "lit ''wrongpass'' \<noteq> []" "lit ''hunter2hunter2'' \<noteq> []"
    by (simp_all add: lit_def)
  let ?alice = "\<lparr>user_id = 1, username = lit ''alice'', email = lit ''alice@x.com'',
       password_hash = lit ''$2a$12$'' @ lit ''password123'', is_active = True\<rparr>"
  let ?bob = "\<lparr>user_id = 2, username = lit ''bob'', email = lit ''bob@x.com'',
       password_hash = lit ''$2a$12$'' @ lit ''hunter2hunter2'', is_active = False\<rparr>"
  have sa: "select_user example_env (lit ''alice'') = Inr (?alice # [])"
    and sb: "select_user example_env (lit ''nobody'') = Inr []"
    and sc: "select_user example_env (lit ''bob'') = Inr (?bob # [])"
    by (simp_all add: example_env_def example_users_def lit_def)
  have act: "is_active ?alice" "\<not> is_active ?bob"
    by simp_all
  have cmp: "bcrypt_compare example_env (lit ''wrongpass'') (password_hash ?alice) = Inr False"
    by (simp add: example_env_def lit_def)
  have v: "signin_view (credentials_signin example_env None)
             = ShowError (lit ''Invalid username or password. Please try again.'')"
    by (simp add: example_env_def signin_view_def truthy_error_def lit_def)
  note T = login_failures_indistinguishable [where en = example_env
      and na = "lit ''alice''" and pa = "lit ''wrongpass''"
      and nb = "lit ''nobody''" and pb = "lit ''wrongpass''"
      and nc = "lit ''bob''" and pc = "lit ''hunter2hunter2''"
      and u = ?alice and us = "[]" and v = ?bob and vs = "[]"
      and wa = fresh_world and wb = fresh_world and wc = fresh_world, unfolded t,
      OF n(1) n(4) n(2) n(4) n(3) n(5) sa act(1) cmp sb sc act(2)]
  from T v getPool_example show ?thesis
    by simp
qed

subsection \<open>Masking of phone numbers in the log\<close>

text \<open>
  The replacement is evaluated with one rule per case of \<open>replace_all\<close>. A field that
  is a ten-digit number, bare, separated by dashes, dots or white space, or written
  \<open>(NXX) NXX-XXXX\<close> with any white space after the parenthesis, is masked to
  \<open>***-***-\<close> and its last four digits.
\<close>

lemma replace_all_Nil: "replace_all m k prev [] = []"
  by simp

lemma replace_all_skip:
  "0 < k \<Longrightarrow> replace_all m k prev (c # cs) = replace_all m (k - 1) (Some c) cs"
  by simp

lemma replace_all_match:
  "m prev (c # cs) = Some (g, n) \<Longrightarrow>
     replace_all m 0 prev (c # cs) = lit ''***-***-'' @ g @ replace_all m (n - 1) (Some c) cs"
  by simp

lemma replace_all_nomatch:
  "m prev (c # cs) = None \<Longrightarrow> replace_all m 0 prev (c # cs) = c # replace_all m 0 (Some c) cs"
  by simp

lemmas replace_all_eval = replace_all_Nil replace_all_skip replace_all_match replace_all_nomatch

lemmas regex_defs = match_paren_def match_sep_def match_raw_def is_digit_def is_space_def
  is_word_def is_sep_def word_before_def word_next_def

lemma mask_text_examples:
  "mask_text (lit ''uncaughtException: no route to 2125551234'')
     = lit ''uncaughtException: no route to ***-***-1234''"
  "mask_text (lit ''unhandledRejection: no route to 2125551234'')
     = lit ''unhandledRejection: no route to ***-***-1234''"
  "mask_text (lit ''at dial (212) 555-1234'') = lit ''at dial ***-***-1234''"
  "mask_text (lit ''error'') = lit ''error''"
  by (simp_all add: mask_text_def lit_def replace_all_eval regex_defs del: replace_all.simps)

lemma digit_facts:
  assumes "is_digit d"
  shows "d \<noteq> 40" "d \<noteq> 41" "d \<noteq> 45" "\<not> is_sep d" "\<not> is_space d" "is_word d" "d \<noteq> 42"
  using assms by (auto simp add: is_digit_def is_sep_def is_space_def is_word_def)

lemma mask_star_tail:
  assumes "is_digit c1" "is_digit c2" "is_digit c3" "is_digit c4"
  shows "replace_all match_raw 0 None
           (replace_all match_sep 0 None (lit ''***-***-'' @ [c1, c2, c3, c4]))
         = lit ''***-***-'' @ [c1, c2, c3, c4]"
  using assms
  by (simp add: lit_def replace_all_eval match_sep_def match_raw_def word_before_def word_next_def
      digit_facts is_digit_def [of 42] is_digit_def [of 45] del: replace_all.simps)

lemma mask_bare:
  assumes "is_digit a1" "is_digit a2" "is_digit a3" "is_digit b1" "is_digit b2" "is_digit b3"
    "is_digit c1" "is_digit c2" "is_digit c3" "is_digit c4"
  shows "mask_text [a1, a2, a3, b1, b2, b3, c1, c2, c3, c4] = lit ''***-***-'' @ [c1, c2, c3, c4]"
  using assms
  by (simp add: mask_text_def replace_all_eval match_paren_def match_sep_def match_raw_def
      word_before_def word_next_def digit_facts del: replace_all.simps)


lemma sep_facts:
  assumes "is_sep s"
  shows "s \<noteq> 40" "\<not> is_digit s"
  using assms by (auto simp add: is_digit_def is_sep_def is_space_def)

lemma mask_separated:
  assumes "is_digit a1" "is_digit a2" "is_digit a3" "is_digit b1" "is_digit b2" "is_digit b3"
    "is_digit c1" "is_digit c2" "is_digit c3" "is_digit c4" "is_sep s" "is_sep t"
  shows "mask_text [a1, a2, a3, s, b1, b2, b3, t, c1, c2, c3, c4] = lit ''***-***-'' @ [c1, c2, c3, c4]"
proof -
  have 1: "replace_all match_paren 0 None [a1, a2, a3, s, b1, b2, b3, t, c1, c2, c3, c4]
             = [a1, a2, a3, s, b1, b2, b3, t, c1, c2, c3, c4]"
    using assms
    by (simp add: replace_all_eval match_paren_def digit_facts sep_facts del: replace_all.simps)
  have 2: "replace_all match_sep 0 None [a1, a2, a3, s, b1, b2, b3, t, c1, c2, c3, c4]
             = lit ''***-***-'' @ [c1, c2, c3, c4]"
    using assms
    by (simp add: replace_all_eval match_sep_def del: replace_all.simps)
  have 3: "replace_all match_raw 0 None (lit ''***-***-'' @ [c1, c2, c3, c4])
             = lit ''***-***-'' @ [c1, c2, c3, c4]"
    using assms
    by (simp add: lit_def replace_all_eval match_raw_def word_before_def word_next_def
        is_digit_def [of 42] is_digit_def [of 45] del: replace_all.simps)
  show ?thesis
    by (simp only: mask_text_def 1 2 3)
qed

lemma replace_all_skip_all: "length xs \<le> k \<Longrightarrow> replace_all m k prev xs = []"
  by (induction xs arbitrary: k prev) auto

lemma match_paren_spaces:
  assumes "is_digit a1" "is_digit a2" "is_digit a3" "is_digit b1" "is_digit b2" "is_digit b3"
    "is_digit c1" "is_digit c2" "is_digit c3" "is_digit c4" "\<forall>x\<in>set ws. is_space x"
  shows "match_paren prev ([40, a1, a2, a3, 41] @ ws @ [b1, b2, b3, 45, c1, c2, c3, c4])
           = Some ([c1, c2, c3, c4], 13 + length ws)"
proof -
  have d: "dropWhile is_space (ws @ [b1, b2, b3, 45, c1, c2, c3, c4]) = [b1, b2, b3, 45, c1, c2, c3, c4]"
    using assms(4,11) by (simp add: dropWhile_append3 digit_facts)
  have t: "takeWhile is_space (ws @ [b1, b2, b3, 45, c1, c2, c3, c4]) = ws"
    using assms(4,11) by (simp add: digit_facts)
  show ?thesis
    using assms(1-10) by (simp add: match_paren_def d t)
qed

lemma mask_parenthesized:
  assumes "is_digit a1" "is_digit a2" "is_digit a3" "is_digit b1" "is_digit b2" "is_digit b3"
    "is_digit c1" "is_digit c2" "is_digit c3" "is_digit c4" "\<forall>x\<in>set ws. is_space x"
  shows "mask_text ([40, a1, a2, a3, 41] @ ws @ [b1, b2, b3, 45, c1, c2, c3, c4])
           = lit ''***-***-'' @ [c1, c2, c3, c4]"
proof -
  have "replace_all match_paren 0 None (40 # ([a1, a2, a3, 41] @ ws @ [b1, b2, b3, 45, c1, c2, c3, c4]))
          = lit ''***-***-'' @ [c1, c2, c3, c4]
            @ replace_all match_paren (13 + length ws - 1) (Some 40)
                ([a1, a2, a3, 41] @ ws @ [b1, b2, b3, 45, c1, c2, c3, c4])"
    using match_paren_spaces [OF assms, of None]
    by (intro replace_all_match) simp
  then have 1: "replace_all match_paren 0 None ([40, a1, a2, a3, 41] @ ws @ [b1, b2, b3, 45, c1, c2, c3, c4])
          = lit ''***-***-'' @ [c1, c2, c3, c4]"
    by (simp add: replace_all_skip_all del: replace_all.simps)
  show ?thesis
    using mask_star_tail [OF assms(7-10)]
    by (simp only: mask_text_def 1)
qed

text \<open>
  A record that is not flagged as an uncaught exception is written by the two
  transports of \<open>transports\<close>, masked.
\<close>

lemma logged_masks_every_string:
  "flag i ''exception'' \<noteq> JBool True \<Longrightarrow>
   logged logger i =
     [(Console, maskPhoneNumbers i), (DailyRotateFile (lit ''app-%DATE%.log''), maskPhoneNumbers i)]"
  by (simp add: logged_def logger_def transport_output_def consoleTransport_def fileTransport_def
      apply_format_def)

lemma example_flags:
  "flag phone_record ''exception'' = JBool True"
  "flag phone_record ''rejection'' = JUndefined"
  "flag rejection_record ''exception'' = JUndefined"
  "flag rejection_record ''rejection'' = JBool True"
  by (simp_all add: flag_def phone_record_def rejection_record_def lit_def)

lemma maskPhoneNumbers_fields:
  "msg (maskPhoneNumbers \<lparr>level = l, msg = JStr m, meta = kvs\<rparr>) = JStr (mask_text m)"
  "(k, JStr v) \<in> set kvs \<Longrightarrow>
     (k, JStr (mask_text v)) \<in> set (meta (maskPhoneNumbers \<lparr>level = l, msg = x, meta = kvs\<rparr>))"
  by (force simp add: maskPhoneNumbers_def mask_val_def)+

text \<open>
  Claim C5 at the records of an uncaught exception and of an unhandled rejection whose
  message and stack carry a phone number. The transports of \<open>exceptionHandlers\<close> and
  \<open>rejectionHandlers\<close>, console and file, are created without a format and write
  the record as it is, all ten digits of both numbers included. The exception record
  is written by them alone; the rejection record is also written, masked, by the two
  transports of \<open>transports\<close>.
\<close>

theorem exception_handlers_log_unmasked:
  "logged logger phone_record = []
   \<and> logged_exception logger phone_record
     = [(Console, phone_record), (DailyRotateFile (lit ''exceptions-%DATE%.log''), phone_record)]
   \<and> logged_rejection logger phone_record = []
   \<and> msg phone_record = JStr (lit ''uncaughtException: no route to 2125551234'')
   \<and> meta phone_record
     = [(lit ''stack'', JStr (lit ''at dial (212) 555-1234'')), (lit ''exception'', JBool True)]
   \<and> logged logger rejection_record
     = [(Console,
         \<lparr>level = lit ''error'', msg = JStr (lit ''unhandledRejection: no route to ***-***-1234''),
          meta = [(lit ''stack'', JStr (lit ''at dial ***-***-1234'')),
                  (lit ''rejection'', JBool True)]\<rparr>),
        (DailyRotateFile (lit ''app-%DATE%.log''),
         \<lparr>level = lit ''error'', msg = JStr (lit ''unhandledRejection: no route to ***-***-1234''),
          meta = [(lit ''stack'', JStr (lit ''at dial ***-***-1234'')),
                  (lit ''rejection'', JBool True)]\<rparr>)]
   \<and> logged_exception logger rejection_record = []
   \<and> logged_rejection logger rejection_record
     = [(Console, rejection_record),
        (DailyRotateFile (lit ''rejections-%DATE%.log''), rejection_record)]
   \<and> msg rejection_record = JStr (lit ''unhandledRejection: no route to 2125551234'')
   \<and> meta rejection_record
     = [(lit ''stack'', JStr (lit ''at dial (212) 555-1234'')), (lit ''rejection'', JBool True)]"
proof -
  have m: "maskPhoneNumbers rejection_record
     = \<lparr>level = lit ''error'', msg = JStr (lit ''unhandledRejection: no route to ***-***-1234''),
         meta = [(lit ''stack'', JStr (lit ''at dial ***-***-1234'')), (lit ''rejection'', JBool True)]\<rparr>"
    by (simp add: rejection_record_def maskPhoneNumbers_def mask_val_def mask_text_examples)
  have 1: "logged logger phone_record = []"
    by (simp add: logged_def example_flags)
  have 2: "logged_exception logger phone_record
     = [(Console, phone_record), (DailyRotateFile (lit ''exceptions-%DATE%.log''), phone_record)]"
    and 3: "logged_rejection logger phone_record = []"
    and 6: "logged_exception logger rejection_record = []"
    and 7: "logged_rejection logger rejection_record
     = [(Console, rejection_record),
        (DailyRotateFile (lit ''rejections-%DATE%.log''), rejection_record)]"
    by (simp_all add: logged_exception_def logged_rejection_def example_flags truthy_def
        logger_def transport_output_def)
  have "flag rejection_record ''exception'' \<noteq> JBool True"
    by (simp add: example_flags)
  then have 5: "logged logger rejection_record
     = [(Console, maskPhoneNumbers rejection_record),
        (DailyRotateFile (lit ''app-%DATE%.log''), maskPhoneNumbers rejection_record)]"
    by (rule logged_masks_every_string)
  have 4: "msg phone_record = JStr (lit ''uncaughtException: no route to 2125551234'')"
    "meta phone_record
     = [(lit ''stack'', JStr (lit ''at dial (212) 555-1234'')), (lit ''exception'', JBool True)]"
    and 8: "msg rejection_record = JStr (lit ''unhandledRejection: no route to 2125551234'')"
    "meta rejection_record
     = [(lit ''stack'', JStr (lit ''at dial (212) 555-1234'')), (lit ''rejection'', JBool True)]"
    by (simp_all add: phone_record_def rejection_record_def)
  show ?thesis
    by (simp only: 1 2 3 4 5 6 7 8 m simp_thms)
qed

text \<open>
  The forgot-password route writes the address of the account it found with
  \<open>console.log\<close>, which does not go through the logger.
\<close>

lemma forgot_password_console_log:
  assumes "json_body req = Some body" and "forgot_email body = Some e"
    and "toLowerCase en (trim e) \<noteq> []"
    and "\<not> malformed_email (toLowerCase en (trim e))"
    and "fst (getPool en w) = Inr pl"
    and "select_active_account en (toLowerCase en (trim e)) = Inr (u # us)"
  shows "ConsoleLog (lit ''[TODO] Password reset requested for: '' @ email u
            @ lit '' (userId: '' @ show_int (user_id u) @ lit '')'')
           \<in> set (trace (snd (forgot_password_POST en req w)))"
proof -
  let ?w1 = "w\<lparr>clock := Suc (clock w)\<rparr>"
  obtain r w2 where g: "getPool en ?w1 = (r, w2)"
    by (cases "getPool en ?w1")
  have "fst (getPool en w) = r"
    using getPool_frame [of ?w1 w en] g by simp
  with assms(5) have r: "r = Inr pl"
    by simp
  show ?thesis
    using assms(1-4,6) g r
    by (simp add: forgot_password_POST_def io_defs Let_def unset_def)
qed

end
